theory Spec2Isabelle
  imports Complex_Main "HOL-Library.Product_Lexorder" "HOL-Library.Multiset"
    "HOL-Library.Char_ord" "HOL-Library.List_Lexorder" "HOL-Library.Sublist"
begin

section \<open>Python values, exceptions and NumPy arrays\<close>

text \<open>
  The two notebooks (\<open>Annex_Matching.ipynb\<close> and the recalibration notebook) are straight-line
  Python over NumPy arrays and pandas frames. A raised exception ends the cell; it is the
  \<open>Inl\<close> branch of a sum type. Floating-point numbers are modelled as real numbers; where a
  computation can produce NaN and the code's behaviour depends on it (the ranking of the
  alignment candidates, the quantile of an empty series) the value is a \<open>real option\<close>
  with \<open>None\<close> for NaN.
\<close>

datatype exn =
    IndexError
  | KeyError string
  | TypeError
  | ValueError
  | OtherError string

definition bind_exn :: "exn + 'a \<Rightarrow> ('a \<Rightarrow> exn + 'b) \<Rightarrow> exn + 'b" where
  "bind_exn m f = (case m of Inl e \<Rightarrow> Inl e | Inr x \<Rightarrow> f x)"

text \<open>\<open>xs[i]\<close> for a literal index \<open>i \<ge> 0\<close> on a Python list.\<close>

definition py_index :: "'a list \<Rightarrow> nat \<Rightarrow> exn + 'a" where
  "py_index xs i = (if i < length xs then Inr (xs ! i) else Inl IndexError)"

text \<open>
  One-dimensional NumPy arrays are lists. A binary operator on two arrays works elementwise
  on equal shapes, broadcasts a one-element array, and raises \<open>ValueError\<close> otherwise.
\<close>

definition np_binop :: "(real \<Rightarrow> real \<Rightarrow> real) \<Rightarrow> real list \<Rightarrow> real list \<Rightarrow> exn + real list" where
  "np_binop f a b =
     (if length a = length b then Inr (map2 f a b)
      else if length a = 1 then Inr (map (f (hd a)) b)
      else if length b = 1 then Inr (map (\<lambda>x. f x (hd b)) a)
      else Inl ValueError)"

definition np_scalar_mul :: "real \<Rightarrow> real list \<Rightarrow> real list" where
  "np_scalar_mul c a = map (\<lambda>x. c * x) a"

definition np_scalar_add :: "real \<Rightarrow> real list \<Rightarrow> real list" where
  "np_scalar_add c a = map (\<lambda>x. c + x) a"

definition np_log :: "real list \<Rightarrow> real list" where
  "np_log a = map ln a"

subsection \<open>Applying a coefficient vector (Annex\_Matching, cell \<open>density_k2020\<close>)\<close>

text \<open>
  \<^verbatim>\<open>density_k2020 = coeffs[0] + coeffs[1] * np.log(scaled_force_median)
            + coeffs[2] * np.log(scaled_force_median) * scaled_l
            + coeffs[3] * scaled_l\<close>
  Python evaluates the sum left to right, so a short coefficient list raises at the first
  missing index and a shape mismatch raises at the product with \<open>scaled_l\<close>.
\<close>

definition density_k2020 :: "real list \<Rightarrow> real list \<Rightarrow> real list \<Rightarrow> exn + real list" where
  "density_k2020 coeffs scaled_force_median scaled_l =
     bind_exn (py_index coeffs 0) (\<lambda>c0.
     bind_exn (py_index coeffs 1) (\<lambda>c1.
     let t1 = np_scalar_add c0 (np_scalar_mul c1 (np_log scaled_force_median)) in
     bind_exn (py_index coeffs 2) (\<lambda>c2.
     bind_exn (np_binop (*) (np_scalar_mul c2 (np_log scaled_force_median)) scaled_l) (\<lambda>t2.
     bind_exn (np_binop (+) t1 t2) (\<lambda>s.
     bind_exn (py_index coeffs 3) (\<lambda>c3.
     np_binop (+) s (np_scalar_mul c3 scaled_l)))))))"

section \<open>pandas frames and the object store\<close>

text \<open>
  A frame is column-oriented, as in pandas: an index (row labels) and an ordered table of
  named columns. A column of floats is \<open>Num\<close>; any other column (\<open>ice_type\<close>, \<open>TYPE\<close>,
  \<open>campaign\<close>) is \<open>Str\<close>, and arithmetic on it raises \<open>TypeError\<close>. A pandas series that
  was read from a frame carries that frame's index; every binary operation between two series
  in the notebooks is between series of the same frame (or of a copy of it), so pandas aligns
  them position by position and the model zips the two value lists.
\<close>

datatype column = Num "real list" | Str "string list"

record frame =
  idx :: "nat list"
  cols :: "(string \<times> column) list"

definition len :: "frame \<Rightarrow> nat" where
  "len df = length (idx df)"

definition col_len :: "column \<Rightarrow> nat" where
  "col_len v = (case v of Num xs \<Rightarrow> length xs | Str xs \<Rightarrow> length xs)"

definition getitem :: "frame \<Rightarrow> string \<Rightarrow> exn + column" where
  "getitem df c = (case map_of (cols df) c of None \<Rightarrow> Inl (KeyError c) | Some v \<Rightarrow> Inr v)"

definition as_float :: "column \<Rightarrow> exn + real list" where
  "as_float v = (case v of Num xs \<Rightarrow> Inr xs | Str xs \<Rightarrow> Inl TypeError)"

definition getnum :: "frame \<Rightarrow> string \<Rightarrow> exn + real list" where
  "getnum df c = bind_exn (getitem df c) as_float"

text \<open>\<open>df[c] = v\<close>: an existing column is replaced in place, a new one is appended.\<close>

fun update_col :: "string \<Rightarrow> column \<Rightarrow> (string \<times> column) list \<Rightarrow> (string \<times> column) list" where
  "update_col c v [] = [(c, v)]"
| "update_col c v ((k, w) # kvs) = (if k = c then (c, v) # kvs else (k, w) # update_col c v kvs)"

definition setitem :: "frame \<Rightarrow> string \<Rightarrow> column \<Rightarrow> exn + frame" where
  "setitem df c v =
     (if col_len v = len df then Inr (df\<lparr>cols := update_col c v (cols df)\<rparr>) else Inl ValueError)"

text \<open>\<open>df.iloc[positions]\<close> with an integer array, and \<open>df[mask]\<close> with a boolean series.\<close>

definition take_rows :: "nat list \<Rightarrow> 'a list \<Rightarrow> 'a list" where
  "take_rows ps xs = map (\<lambda>i. xs ! i) ps"

definition mask_rows :: "bool list \<Rightarrow> 'a list \<Rightarrow> 'a list" where
  "mask_rows m xs = map snd (filter fst (zip m xs))"

definition map_column :: "(real list \<Rightarrow> real list) \<Rightarrow> (string list \<Rightarrow> string list) \<Rightarrow> column \<Rightarrow> column" where
  "map_column f g v = (case v of Num xs \<Rightarrow> Num (f xs) | Str xs \<Rightarrow> Str (g xs))"

definition iloc :: "frame \<Rightarrow> nat list \<Rightarrow> exn + frame" where
  "iloc df ps =
     (if list_all (\<lambda>i. i < len df) ps
      then Inr \<lparr>idx = take_rows ps (idx df),
                cols = map (\<lambda>(c, v). (c, map_column (take_rows ps) (take_rows ps) v)) (cols df)\<rparr>
      else Inl IndexError)"

definition boolean_index :: "frame \<Rightarrow> bool list \<Rightarrow> exn + frame" where
  "boolean_index df m =
     (if length m = len df
      then Inr \<lparr>idx = mask_rows m (idx df),
                cols = map (\<lambda>(c, v). (c, map_column (mask_rows m) (mask_rows m) v)) (cols df)\<rparr>
      else Inl ValueError)"

text \<open>
  Frames are mutable objects and Python variables hold references to them, so the frames
  live in a store and a variable is an address. \<open>result.copy()\<close> and every operation that
  builds a new frame allocate; \<open>df[c] = v\<close> overwrites the object at the address of \<open>df\<close>.
\<close>

record store =
  objs :: "nat \<Rightarrow> frame option"
  nxt :: nat

definition empty_store :: store where
  "empty_store = \<lparr>objs = (\<lambda>a. None), nxt = 0\<rparr>"

definition alloc :: "frame \<Rightarrow> store \<Rightarrow> nat \<times> store" where
  "alloc df s = (nxt s, s\<lparr>objs := (objs s)(nxt s \<mapsto> df), nxt := Suc (nxt s)\<rparr>)"

definition deref :: "store \<Rightarrow> nat \<Rightarrow> exn + frame" where
  "deref s a = (case objs s a of None \<Rightarrow> Inl (OtherError ''NameError'') | Some df \<Rightarrow> Inr df)"

definition assign_col :: "nat \<Rightarrow> string \<Rightarrow> column \<Rightarrow> store \<Rightarrow> exn + store" where
  "assign_col a c v s =
     bind_exn (deref s a) (\<lambda>df.
     bind_exn (setitem df c v) (\<lambda>df'.
     Inr (s\<lparr>objs := (objs s)(a \<mapsto> df')\<rparr>)))"

definition copy :: "nat \<Rightarrow> store \<Rightarrow> exn + nat \<times> store" where
  "copy a s = bind_exn (deref s a) (\<lambda>df. Inr (alloc df s))"

section \<open>Library functions the notebooks call\<close>

text \<open>
  statsmodels, SciPy, the NumPy random generator and the pickle loader are libraries outside
  the repository. They are parameters of the model, so every theorem holds for whatever they
  compute. \<open>params_values\<close> is \<open>model.params.values\<close>: for both formulas of the notebook
  (\<open>RHO ~ force_log + force_log * l\<close> and the same with \<open>+ l\<close>) patsy orders the terms as
  Intercept, \<open>force_log\<close>, \<open>l\<close>, \<open>force_log:l\<close>.
\<close>

record ('g, 'm) lib =
  RandomState :: "nat \<Rightarrow> 'g"
  shuffle :: "'g \<Rightarrow> nat list \<Rightarrow> nat list"
  ols_fit :: "string \<Rightarrow> frame \<Rightarrow> exn + 'm"
  params_values :: "'m \<Rightarrow> real list"
  predict :: "'m \<Rightarrow> column \<Rightarrow> column \<Rightarrow> exn + real list"
  corrcoef :: "real list \<Rightarrow> real list \<Rightarrow> real"
  ma_corrcoef :: "real list \<Rightarrow> real list \<Rightarrow> real"
  pearsonr_p :: "real list \<Rightarrow> real list \<Rightarrow> exn + real"
  read_pickle :: "string \<Rightarrow> exn + frame"

text \<open>The entries of \<open>model.params.values\<close> by the name of their term.\<close>

definition p_Intercept :: "real list \<Rightarrow> real" where "p_Intercept row = row ! 0"
definition p_force_log :: "real list \<Rightarrow> real" where "p_force_log row = row ! 1"
definition p_l :: "real list \<Rightarrow> real" where "p_l row = row ! 2"
definition p_force_log_l :: "real list \<Rightarrow> real" where "p_force_log_l row = row ! 3"

definition RANDOM_SEED :: nat where
  "RANDOM_SEED = 2019"

subsection \<open>\<open>KFold(n_splits, shuffle=True, random_state).split\<close>\<close>

text \<open>
  scikit-learn is a library too; this is its documented algorithm. It refuses more splits
  than samples, shuffles \<open>arange(n)\<close>, cuts the shuffled indices into \<open>n_splits\<close> consecutive
  test folds of sizes \<open>n div k\<close> (the first \<open>n mod k\<close> one larger), and returns each fold as
  the pair (train, test) of index arrays taken from \<open>arange(n)\<close> through the boolean test mask.
  The generator that shuffles is chosen by \<open>check_random_state\<close>: a fresh
  \<open>RandomState(seed)\<close> for an integer \<open>random_state\<close>, NumPy's global generator (whose state
  when the kernel starts comes from the operating system) for \<open>None\<close>.
\<close>

definition check_random_state :: "('g, 'm) lib \<Rightarrow> nat option \<Rightarrow> 'g \<Rightarrow> 'g" where
  "check_random_state L random_state np_global =
     (case random_state of None \<Rightarrow> np_global | Some seed \<Rightarrow> RandomState L seed)"

definition fold_sizes :: "nat \<Rightarrow> nat \<Rightarrow> nat list" where
  "fold_sizes n k = map (\<lambda>i. n div k + (if i < n mod k then 1 else 0)) [0..<k]"

fun slices :: "'a list \<Rightarrow> nat list \<Rightarrow> 'a list list" where
  "slices xs [] = []"
| "slices xs (m # ms) = take m xs # slices (drop m xs) ms"

definition KFold_split ::
  "('g, 'm) lib \<Rightarrow> nat \<Rightarrow> nat option \<Rightarrow> 'g \<Rightarrow> nat \<Rightarrow> exn + (nat list \<times> nat list) list" where
  "KFold_split L n_splits random_state np_global n =
     (if n < n_splits then Inl ValueError
      else
        let indices = shuffle L (check_random_state L random_state np_global) [0..<n]
        in Inr (map (\<lambda>test_index.
                       (filter (\<lambda>i. i \<notin> set test_index) [0..<n],
                        filter (\<lambda>i. i \<in> set test_index) [0..<n]))
                    (slices indices (fold_sizes n n_splits))))"

section \<open>The recalibration notebook\<close>

text \<open>
  Cells that only print or draw read the state and leave it as it is; they are not modelled.
\<close>

definition mean :: "real list \<Rightarrow> real" where
  "mean xs = sum_list xs / real (length xs)"

definition np_std :: "real list \<Rightarrow> real" where
  "np_std xs = sqrt (mean (map (\<lambda>x. (x - mean xs)\<^sup>2) xs))"

text \<open>\<open>np.round(x, 2)\<close>: scale by 100, round half to even, scale back.\<close>

definition rint :: "real \<Rightarrow> int" where
  "rint x =
     (let f = \<lfloor>x\<rfloor>; d = x - of_int f
      in if d < 1 / 2 then f else if 1 / 2 < d then f + 1 else if even f then f else f + 1)"

definition np_round2 :: "real \<Rightarrow> real" where
  "np_round2 x = of_int (rint (x * 100)) / 100"

subsection \<open>The K-fold loop\<close>

text \<open>
  \<^verbatim>\<open>rmse = []; error = []; r = []; params = None
for train_idx, test_idx in k_fold.split(result):
    train = result.iloc[train_idx]
    test = result.iloc[test_idx]
    model_rho = ols(formula, train).fit()
    predict_rho = model_rho.predict(exog=dict(force_log=test['force_log'], l=test['l']))
    rmse = np.append(rmse, np.sqrt(np.mean((predict_rho - test['RHO'])**2)))
    r = np.append(r,np.corrcoef(predict_rho, test['RHO'])[1][0])
    error = np.append(error, predict_rho - test['RHO'])
    if params is None:
        params = model_rho.params.values
    else:
        params =  np.vstack((params, model_rho.params.values))\<close>
  \<open>params\<close> is the list of the rows stacked so far: \<open>[]\<close> is \<open>None\<close> and a single row is
  the one-dimensional array of the first fold.
\<close>

record cv =
  cv_rmse :: "real list"
  cv_error :: "real list"
  cv_r :: "real list"
  cv_params :: "real list list"

definition vstack :: "real list list \<Rightarrow> real list \<Rightarrow> exn + real list list" where
  "vstack params row =
     (case params of
        [] \<Rightarrow> Inr [row]
      | p # ps \<Rightarrow> if length p = length row then Inr (params @ [row]) else Inl ValueError)"

definition fold_step ::
  "('g, 'm) lib \<Rightarrow> string \<Rightarrow> frame \<Rightarrow> cv \<Rightarrow> nat list \<times> nat list \<Rightarrow> exn + cv" where
  "fold_step L formula df acc fld =
     bind_exn (iloc df (fst fld)) (\<lambda>train.
     bind_exn (iloc df (snd fld)) (\<lambda>test.
     bind_exn (ols_fit L formula train) (\<lambda>model_rho.
     bind_exn (getitem test ''force_log'') (\<lambda>fl.
     bind_exn (getitem test ''l'') (\<lambda>l.
     bind_exn (predict L model_rho fl l) (\<lambda>predict_rho.
     bind_exn (getnum test ''RHO'') (\<lambda>rho.
     let d = map2 (-) predict_rho rho in
     bind_exn (vstack (cv_params acc) (params_values L model_rho)) (\<lambda>params.
     Inr \<lparr>cv_rmse = cv_rmse acc @ [sqrt (mean (map (\<lambda>x. x\<^sup>2) d))],
          cv_error = cv_error acc @ d,
          cv_r = cv_r acc @ [corrcoef L predict_rho rho],
          cv_params = params\<rparr>))))))))"

fun kfold_loop ::
  "('g, 'm) lib \<Rightarrow> string \<Rightarrow> frame \<Rightarrow> cv \<Rightarrow> (nat list \<times> nat list) list \<Rightarrow> exn + cv" where
  "kfold_loop L formula df acc [] = Inr acc"
| "kfold_loop L formula df acc (fld # folds) =
     bind_exn (fold_step L formula df acc fld) (\<lambda>acc'. kfold_loop L formula df acc' folds)"

text \<open>\<open>k_fold = KFold(n_splits = 10, shuffle = True, random_state = RANDOM_SEED)\<close> and the loop.\<close>

definition cell_kfold :: "('g, 'm) lib \<Rightarrow> 'g \<Rightarrow> string \<Rightarrow> frame \<Rightarrow> exn + cv" where
  "cell_kfold L np_global formula df =
     bind_exn (KFold_split L 10 (Some RANDOM_SEED) np_global (len df)) (\<lambda>folds.
     kfold_loop L formula df \<lparr>cv_rmse = [], cv_error = [], cv_r = [], cv_params = []\<rparr> folds)"

record stats =
  st_rmse :: real
  st_bias :: real
  st_r2 :: real

text \<open>\<open>k20a_rmse = rmse.mean(); k20a_bias = error.mean(); k20a_r2 = r.mean()**2\<close>\<close>

definition cell_stats :: "cv \<Rightarrow> stats" where
  "cell_stats acc =
     \<lparr>st_rmse = mean (cv_rmse acc), st_bias = mean (cv_error acc), st_r2 = (mean (cv_r acc))\<^sup>2\<rparr>"

subsection \<open>The coefficient vector\<close>

text \<open>
  \<^verbatim>\<open>model_k20a_coeff = [np.round(params[:,0].mean(),2), np.round(params[:,1].mean(),2),
              np.round(params[:,3].mean(),2), np.round(params[:,2].mean(),2)]
var_coeffs = [np.round(params[:,0].std(),2), np.round(params[:,1].std(),2),
              np.round(params[:,3].std(),2), np.round(params[:,2].std(),2)]\<close>
  \<open>params[:,j]\<close> fails on \<open>None\<close> (\<open>TypeError\<close>) and on a one-dimensional array
  (\<open>IndexError\<close>), as on a column that is not there.
\<close>

definition params_column :: "real list list \<Rightarrow> nat \<Rightarrow> exn + real list" where
  "params_column params j =
     (case params of
        [] \<Rightarrow> Inl TypeError
      | [p] \<Rightarrow> Inl IndexError
      | p # q # ps \<Rightarrow> if j < length p then Inr (map (\<lambda>row. row ! j) params) else Inl IndexError)"

definition model_coeff :: "real list list \<Rightarrow> exn + real list \<times> real list" where
  "model_coeff params =
     bind_exn (params_column params 0) (\<lambda>c0.
     bind_exn (params_column params 1) (\<lambda>c1.
     bind_exn (params_column params 3) (\<lambda>c3.
     bind_exn (params_column params 2) (\<lambda>c2.
     Inr ([np_round2 (mean c0), np_round2 (mean c1), np_round2 (mean c3), np_round2 (mean c2)],
          [np_round2 (np_std c0), np_round2 (np_std c1), np_round2 (np_std c3), np_round2 (np_std c2)])))))"

subsection \<open>Applying the coefficients to a frame\<close>

text \<open>
  \<^verbatim>\<open>k20a_rho = model_k20a_coeff[0]+(model_k20a_coeff[1]*result['force_log'])+ \
           (model_k20a_coeff[2]*result['force_log']*result['l'])+ \
           model_k20a_coeff[3]*result['l']\<close>
\<close>

definition k20_rho :: "real list \<Rightarrow> frame \<Rightarrow> exn + real list" where
  "k20_rho coeff df =
     bind_exn (py_index coeff 0) (\<lambda>c0.
     bind_exn (py_index coeff 1) (\<lambda>c1.
     bind_exn (getnum df ''force_log'') (\<lambda>fl1.
     let t1 = np_scalar_add c0 (np_scalar_mul c1 fl1) in
     bind_exn (py_index coeff 2) (\<lambda>c2.
     bind_exn (getnum df ''force_log'') (\<lambda>fl2.
     bind_exn (getnum df ''l'') (\<lambda>l2.
     let t2 = map2 (+) t1 (map2 (*) (np_scalar_mul c2 fl2) l2) in
     bind_exn (py_index coeff 3) (\<lambda>c3.
     bind_exn (getnum df ''l'') (\<lambda>l3.
     Inr (map2 (+) t2 (np_scalar_mul c3 l3))))))))))"

subsection \<open>Removing outliers\<close>

text \<open>
  \<open>Series.quantile(q)\<close> interpolates linearly between the two order statistics around
  position \<open>q * (n - 1)\<close>; on an empty series it is NaN. A comparison with NaN is false.
\<close>

definition quantile :: "real list \<Rightarrow> real \<Rightarrow> real option" where
  "quantile xs q =
     (if xs = [] then None
      else
        let srt = sort xs; h = q * real (length xs - 1); lo = nat \<lfloor>h\<rfloor>; hi = nat \<lceil>h\<rceil>
        in Some (srt ! lo + (h - real lo) * (srt ! hi - srt ! lo)))"

definition series_lt :: "real list \<Rightarrow> real option \<Rightarrow> bool list" where
  "series_lt xs q = map (\<lambda>x. case q of None \<Rightarrow> False | Some v \<Rightarrow> x < v) xs"

text \<open>
  \<^verbatim>\<open>result_lim = result.copy()
result_lim['f_l'] = (result_lim['l'])*result_lim['force_log']
result_lim['abs_error'] = np.abs(k20a_rho - result_lim['RHO'])
q_95 = result_lim['abs_error'].quantile(0.95)
result_lim = result_lim[result_lim['abs_error'] < q_95]
n_removed  = len(result) - len(result_lim)\<close>
  The cell returns the new binding of \<open>result_lim\<close>, \<open>q_95\<close>, \<open>n_removed\<close> and the store.
\<close>

definition cell_outliers ::
  "nat \<Rightarrow> real list \<Rightarrow> store \<Rightarrow> exn + nat \<times> real option \<times> int \<times> store" where
  "cell_outliers result k20a_rho s =
     bind_exn (copy result s) (\<lambda>(result_lim, s1).
     bind_exn (deref s1 result_lim) (\<lambda>d1.
     bind_exn (getnum d1 ''l'') (\<lambda>l.
     bind_exn (getnum d1 ''force_log'') (\<lambda>fl.
     bind_exn (assign_col result_lim ''f_l'' (Num (map2 (*) l fl)) s1) (\<lambda>s2.
     bind_exn (deref s2 result_lim) (\<lambda>d2.
     bind_exn (getnum d2 ''RHO'') (\<lambda>rho.
     bind_exn (assign_col result_lim ''abs_error'' (Num (map abs (map2 (-) k20a_rho rho))) s2) (\<lambda>s3.
     bind_exn (deref s3 result_lim) (\<lambda>d3.
     bind_exn (getnum d3 ''abs_error'') (\<lambda>abs_error.
     let q_95 = quantile abs_error 0.95 in
     bind_exn (getnum d3 ''abs_error'') (\<lambda>abs_error'.
     bind_exn (boolean_index d3 (series_lt abs_error' q_95)) (\<lambda>d4.
     let (result_lim', s4) = alloc d4 s3 in
     bind_exn (deref s4 result) (\<lambda>r0.
     bind_exn (deref s4 result_lim') (\<lambda>r1.
     Inr (result_lim', q_95, int (len r0) - int (len r1), s4)))))))))))))))"

subsection \<open>The P15 statistics and the error columns\<close>

text \<open>
  \<^verbatim>\<open>p2015_rmse = np.sqrt(np.mean((result['mean_samp']-result['RHO'])**2))
p2015_bias = (result['error']).mean()
p2015_r2 = np.ma.corrcoef(result['mean_samp'],result['RHO'])[0, 1]**2
p2015_n = len(result['mean_samp'])
p2015_p = stats.pearsonr(result['mean_samp'],result['RHO'])[1]\<close>
\<close>

record p2015 =
  p2015_rmse :: real
  p2015_bias :: real
  p2015_r2 :: real
  p2015_n :: nat
  p2015_p :: real

definition cell_p2015 :: "('g, 'm) lib \<Rightarrow> nat \<Rightarrow> store \<Rightarrow> exn + p2015" where
  "cell_p2015 L result s =
     bind_exn (deref s result) (\<lambda>df.
     bind_exn (getnum df ''mean_samp'') (\<lambda>mean_samp.
     bind_exn (getnum df ''RHO'') (\<lambda>rho.
     bind_exn (getnum df ''error'') (\<lambda>err.
     bind_exn (pearsonr_p L mean_samp rho) (\<lambda>p.
     Inr \<lparr>p2015_rmse = sqrt (mean (map (\<lambda>x. x\<^sup>2) (map2 (-) mean_samp rho))),
          p2015_bias = mean err,
          p2015_r2 = (ma_corrcoef L mean_samp rho)\<^sup>2,
          p2015_n = length mean_samp,
          p2015_p = p\<rparr>)))))"

text \<open>
  \<^verbatim>\<open>result_lim['model_rho'] = k20b_rho
result_lim['abs_error'] = np.abs(k20b_rho-result_lim['RHO']).values
result_lim['error'] = (k20b_rho-result_lim['RHO']).values\<close>
\<close>

definition cell_error_columns :: "nat \<Rightarrow> real list \<Rightarrow> store \<Rightarrow> exn + store" where
  "cell_error_columns result_lim k20b_rho s =
     bind_exn (assign_col result_lim ''model_rho'' (Num k20b_rho) s) (\<lambda>s1.
     bind_exn (deref s1 result_lim) (\<lambda>d1.
     bind_exn (getnum d1 ''RHO'') (\<lambda>rho1.
     bind_exn (assign_col result_lim ''abs_error'' (Num (map abs (map2 (-) k20b_rho rho1))) s1) (\<lambda>s2.
     bind_exn (deref s2 result_lim) (\<lambda>d2.
     bind_exn (getnum d2 ''RHO'') (\<lambda>rho2.
     assign_col result_lim ''error'' (Num (map2 (-) k20b_rho rho2)) s2))))))"

subsection \<open>The notebook, cell after cell\<close>

text \<open>
  The run is cut where the notebook writes a file, so that the files written before an
  exception are still there after it: the result is the outcome of the run together with
  the file system it leaves. Writing a pickle is taken to succeed.
\<close>

record stage_a =
  a_result :: nat
  a_store :: store
  a_cv :: cv
  a_stats :: stats
  a_coeff :: "real list"

record stage_b =
  b_k20a_rho :: "real list"
  b_result_lim :: nat
  b_q_95 :: "real option"
  b_n_removed :: int
  b_store :: store
  b_cv :: cv
  b_stats :: stats
  b_coeff :: "real list"

record outputs =
  out_a :: stage_a
  out_b :: stage_b
  out_k20b_rho :: "real list"
  out_p2015 :: p2015
  out_store :: store

definition run_stage_a :: "('g, 'm) lib \<Rightarrow> 'g \<Rightarrow> exn + stage_a" where
  "run_stage_a L np_global =
     bind_exn (read_pickle L ''./output/smp_pit_filtered.pkl'') (\<lambda>pkl.
     let (result, s0) = alloc pkl empty_store in
     bind_exn (deref s0 result) (\<lambda>d0.
     bind_exn (getnum d0 ''force_median'') (\<lambda>force_median.
     bind_exn (assign_col result ''force_log'' (Num (np_log force_median)) s0) (\<lambda>s1.
     bind_exn (deref s1 result) (\<lambda>d1.
     bind_exn (cell_kfold L np_global ''RHO ~ force_log + force_log * l'' d1) (\<lambda>acc.
     bind_exn (model_coeff (cv_params acc)) (\<lambda>(model_k20a_coeff, var_coeffs).
     Inr \<lparr>a_result = result, a_store = s1, a_cv = acc, a_stats = cell_stats acc,
          a_coeff = model_k20a_coeff\<rparr>)))))))"

definition run_stage_b :: "('g, 'm) lib \<Rightarrow> 'g \<Rightarrow> stage_a \<Rightarrow> exn + stage_b" where
  "run_stage_b L np_global a =
     bind_exn (deref (a_store a) (a_result a)) (\<lambda>d.
     bind_exn (k20_rho (a_coeff a) d) (\<lambda>k20a_rho.
     bind_exn (cell_outliers (a_result a) k20a_rho (a_store a)) (\<lambda>(result_lim, q_95, n_removed, s).
     bind_exn (deref s result_lim) (\<lambda>dl.
     bind_exn (cell_kfold L np_global ''RHO ~ force_log + force_log * l + l'' dl) (\<lambda>acc.
     bind_exn (model_coeff (cv_params acc)) (\<lambda>(model_k20b_coeff, var_coeffs).
     Inr \<lparr>b_k20a_rho = k20a_rho, b_result_lim = result_lim, b_q_95 = q_95,
          b_n_removed = n_removed, b_store = s, b_cv = acc, b_stats = cell_stats acc,
          b_coeff = model_k20b_coeff\<rparr>))))))"

definition run_stage_c :: "('g, 'm) lib \<Rightarrow> stage_a \<Rightarrow> stage_b \<Rightarrow> exn + outputs" where
  "run_stage_c L a b =
     bind_exn (deref (b_store b) (b_result_lim b)) (\<lambda>dl.
     bind_exn (k20_rho (b_coeff b) dl) (\<lambda>k20b_rho.
     bind_exn (cell_p2015 L (a_result a) (b_store b)) (\<lambda>p.
     bind_exn (cell_error_columns (b_result_lim b) k20b_rho (b_store b)) (\<lambda>s.
     Inr \<lparr>out_a = a, out_b = b, out_k20b_rho = k20b_rho, out_p2015 = p, out_store = s\<rparr>))))"

type_synonym files = "string \<Rightarrow> real list option"

definition recalibration :: "('g, 'm) lib \<Rightarrow> 'g \<Rightarrow> files \<Rightarrow> (exn + outputs) \<times> files" where
  "recalibration L np_global fs =
     (case run_stage_a L np_global of
        Inl e \<Rightarrow> (Inl e, fs)
      | Inr a \<Rightarrow>
          let fs1 = fs(''./output/density_k20a_coeffs.pkl'' \<mapsto> a_coeff a) in
          (case run_stage_b L np_global a of
             Inl e \<Rightarrow> (Inl e, fs1)
           | Inr b \<Rightarrow>
               let fs2 = fs1(''./output/density_k20b_coeffs.pkl'' \<mapsto> b_coeff b) in
               (case run_stage_c L a b of
                  Inl e \<Rightarrow> (Inl e, fs2)
                | Inr out \<Rightarrow> (Inr out, fs2))))"

section \<open>The matching notebook\<close>

text \<open>
  Modelled from the spec: the local package \<open>smpfunc\<close> (\<open>preprocess\<close>, \<open>random_stretch\<close>,
  \<open>scale_profile\<close>, \<open>extract_samples\<close>, \<open>calc_skill\<close>) is not among the sources. The spec
  says that the search "stochastically stretches SMP layers" and scores "candidate alignments
  by goodness-of-fit"; the functions are parameters of the model with the signatures of their
  calls, \<open>random_stretch\<close> drawing from NumPy's global generator (the one the notebook seeds)
  and \<open>calc_skill\<close> returning the four scores \<open>r\<close>, \<open>rmse\<close>, \<open>rmse_corr\<close>, \<open>mae\<close>, each a
  float or NaN. snowmicropyn, the CSV reader, the directory listing and the computation of
  the first-guess profile from them are parameters as well.
\<close>

record skill =
  skill_r :: "real option"
  skill_rmse :: "real option"
  skill_rmse_corr :: "real option"
  skill_mae :: "real option"

record smp_df =
  smp_distance :: "real list"
  smp_density :: "real list"
  smp_force_median :: "real list"
  smp_l :: "real list"

record ('g, 'p, 'c, 't) env =
  seed_state :: "nat \<Rightarrow> 'g"
  read_csv :: "string \<Rightarrow> exn + 't"
  abspath :: "string \<Rightarrow> string"
  pickle_load :: "string \<Rightarrow> exn + real list"
  listdir :: "string \<Rightarrow> exn + string list"
  Profile_load :: "string \<Rightarrow> exn + 'p"
  preprocess :: "'p \<Rightarrow> exn + 'p"
  detect_ground :: "'p \<Rightarrow> exn + real \<times> 'p"
  detect_surface :: "'p \<Rightarrow> exn + real \<times> 'p"
  first_guess :: "'t \<Rightarrow> 't \<Rightarrow> 'p \<Rightarrow> exn + smp_df \<times> real list"
  random_stretch :: "nat \<Rightarrow> real \<Rightarrow> real \<Rightarrow> 'g \<Rightarrow> exn + real list \<times> 'g"
  scale_profile :: "real list \<Rightarrow> real list \<Rightarrow> real list \<Rightarrow> nat \<Rightarrow> nat \<Rightarrow> exn + real list \<times> real list"
  extract_samples :: "real list \<Rightarrow> real list \<Rightarrow> real list \<Rightarrow> nat \<Rightarrow> exn + 'c"
  concat_pit :: "'c \<Rightarrow> exn + 'c"
  calc_skill :: "'c \<Rightarrow> nat \<Rightarrow> exn + skill"
  mean_samp :: "'c \<Rightarrow> exn + real list"
  assign_l_force :: "'c \<Rightarrow> real list \<Rightarrow> real list \<Rightarrow> exn + 'c"

definition CUTTER_SIZE :: nat where "CUTTER_SIZE = 15"
definition H_RESAMPLE :: nat where "H_RESAMPLE = 1"
definition L_RESAMPLE :: nat where "L_RESAMPLE = 50"
definition MAX_STRETCH_LAYER :: real where "MAX_STRETCH_LAYER = 0.75"
definition MAX_STRETCH_OVERALL :: real where "MAX_STRETCH_OVERALL = 0.15"
definition NUM_TESTS :: nat where "NUM_TESTS = 10000"

text \<open>\<open>np.random.seed(n)\<close> replaces the state of the global generator by the one made from \<open>n\<close>.\<close>

definition np_random_seed :: "('g, 'p, 'c, 't) env \<Rightarrow> nat \<Rightarrow> 'g \<Rightarrow> 'g" where
  "np_random_seed E n np_global = seed_state E n"

text \<open>A list comprehension \<open>[f(x) for x in xs]\<close> whose body can raise.\<close>

fun map_exn :: "('a \<Rightarrow> exn + 'b) \<Rightarrow> 'a list \<Rightarrow> exn + 'b list" where
  "map_exn f [] = Inr []"
| "map_exn f (x # xs) = bind_exn (f x) (\<lambda>y. bind_exn (map_exn f xs) (\<lambda>ys. Inr (y # ys)))"

subsection \<open>Loading the profiles\<close>

text \<open>
  \<^verbatim>\<open>def load_smp(smp_file):
    p = Profile.load(smp_file)
    p = smpfunc.preprocess(p, smoothing = 0)
    ground  = p.detect_ground()
    surface  = p.detect_surface()
    return p

file_list = [
    os.path.join(input_data, f)
    for f in sorted(os.listdir(input_data))
    if f.endswith(".pnt")]

smp_data = [load_smp(file) for file in file_list]\<close>
\<close>

definition load_smp :: "('g, 'p, 'c, 't) env \<Rightarrow> string \<Rightarrow> exn + 'p" where
  "load_smp E smp_file =
     bind_exn (Profile_load E smp_file) (\<lambda>p0.
     bind_exn (preprocess E p0) (\<lambda>p1.
     bind_exn (detect_ground E p1) (\<lambda>(ground, p2).
     bind_exn (detect_surface E p2) (\<lambda>(surface, p3).
     Inr p3))))"

definition cell_load :: "('g, 'p, 'c, 't) env \<Rightarrow> string \<Rightarrow> exn + 'p list" where
  "cell_load E input_data =
     bind_exn (listdir E input_data) (\<lambda>names.
     let file_list = map (\<lambda>f. input_data @ ''/'' @ f) (filter (suffix ''.pnt'') (sort names))
     in map_exn (load_smp E) file_list)"

subsection \<open>Sampling and scoring the candidates\<close>

text \<open>
  \<^verbatim>\<open>num_sections = np.ceil(len(smp_df.index)/L_RESAMPLE).astype(int)
random_tests = [smpfunc.random_stretch(x, MAX_STRETCH_OVERALL, MAX_STRETCH_LAYER)
                for x in np.repeat(num_sections, NUM_TESTS)]
scaled_profiles = [smpfunc.scale_profile(test, smp_df.distance.values, smp_df.density.values,
                                         L_RESAMPLE, H_RESAMPLE) for test in random_tests]
compare_profiles = [smpfunc.extract_samples(dist, rho, density_df.relative_height.values,
                                            CUTTER_SIZE) for dist, rho in scaled_profiles]
compare_profiles = [pd.concat([profile, density_df.reset_index()], axis=1, sort=False)
                    for profile in compare_profiles]
retrieved_skill = [smpfunc.calc_skill(profile, CUTTER_SIZE) for profile in compare_profiles]
retrieved_skill = pd.DataFrame(retrieved_skill,columns = ['r','rmse','rmse_corr','mae'])\<close>
  Each call of \<open>random_stretch\<close> advances the global generator.
\<close>

fun draw_tests :: "('g, 'p, 'c, 't) env \<Rightarrow> nat list \<Rightarrow> 'g \<Rightarrow> exn + real list list \<times> 'g" where
  "draw_tests E [] g = Inr ([], g)"
| "draw_tests E (x # xs) g =
     bind_exn (random_stretch E x MAX_STRETCH_OVERALL MAX_STRETCH_LAYER g) (\<lambda>(test, g1).
     bind_exn (draw_tests E xs g1) (\<lambda>(tests, g2).
     Inr (test # tests, g2)))"

record ('c) search =
  s_smp_df :: smp_df
  s_relative_height :: "real list"
  s_random_tests :: "real list list"
  s_scaled_profiles :: "(real list \<times> real list) list"
  s_compare_profiles :: "'c list"
  s_retrieved_skill :: "skill list"

definition cell_search ::
  "('g, 'p, 'c, 't) env \<Rightarrow> 't \<Rightarrow> 't \<Rightarrow> 'p list \<Rightarrow> 'g \<Rightarrow> exn + 'c search \<times> 'g" where
  "cell_search E pit_summary pit_density smp_data g =
     bind_exn (py_index smp_data 11) (\<lambda>smp.
     bind_exn (first_guess E pit_summary pit_density smp) (\<lambda>(df, relative_height).
     let num_sections = nat \<lceil>real (length (smp_distance df)) / real L_RESAMPLE\<rceil> in
     bind_exn (draw_tests E (replicate NUM_TESTS num_sections) g) (\<lambda>(random_tests, g').
     bind_exn (map_exn (\<lambda>test. scale_profile E test (smp_distance df) (smp_density df)
                                  L_RESAMPLE H_RESAMPLE) random_tests) (\<lambda>scaled_profiles.
     bind_exn (map_exn (\<lambda>(dist, rho). extract_samples E dist rho relative_height CUTTER_SIZE)
                       scaled_profiles) (\<lambda>extracted.
     bind_exn (map_exn (concat_pit E) extracted) (\<lambda>compare_profiles.
     bind_exn (map_exn (\<lambda>profile. calc_skill E profile CUTTER_SIZE) compare_profiles)
       (\<lambda>retrieved_skill.
     Inr (\<lparr>s_smp_df = df, s_relative_height = relative_height, s_random_tests = random_tests,
           s_scaled_profiles = scaled_profiles, s_compare_profiles = compare_profiles,
           s_retrieved_skill = retrieved_skill\<rparr>, g'))))))))"

subsection \<open>Selecting the best candidate\<close>

text \<open>
  \<^verbatim>\<open>min_scaling_idx = retrieved_skill.sort_values(['r', 'rmse_corr'],
                      ascending=[False, True]).head(1).index.values
min_scaling_coeff = random_tests[int(min_scaling_idx)]\<close>
  \<open>sort_values\<close> on several columns is a stable lexicographic sort; on every column NaN
  goes last (\<open>na_position='last'\<close>), whether the column is ascending or descending. The rows
  of the frame are labelled \<open>0, 1, ...\<close> in the order of the list. \<open>int\<close> of an array that has
  not exactly one element raises \<open>TypeError\<close>.
\<close>

definition descending_key :: "real option \<Rightarrow> bool \<times> real" where
  "descending_key x = (case x of None \<Rightarrow> (True, 0) | Some v \<Rightarrow> (False, - v))"

definition ascending_key :: "real option \<Rightarrow> bool \<times> real" where
  "ascending_key x = (case x of None \<Rightarrow> (True, 0) | Some v \<Rightarrow> (False, v))"

definition sort_values_r_rmse_corr :: "(nat \<times> skill) list \<Rightarrow> (nat \<times> skill) list" where
  "sort_values_r_rmse_corr rows =
     sort_key (\<lambda>row. (descending_key (skill_r (snd row)), ascending_key (skill_rmse_corr (snd row))))
       rows"

definition min_scaling_idx :: "skill list \<Rightarrow> nat list" where
  "min_scaling_idx retrieved_skill =
     map fst (take 1 (sort_values_r_rmse_corr (zip [0..<length retrieved_skill] retrieved_skill)))"

definition py_int :: "nat list \<Rightarrow> exn + nat" where
  "py_int a = (case a of [i] \<Rightarrow> Inr i | _ \<Rightarrow> Inl TypeError)"

text \<open>
  \<^verbatim>\<open>dist, scaled_l =  smpfunc.scale_profile(min_scaling_coeff, smp_df.distance.values,
                                         smp_df.l.values, L_RESAMPLE, H_RESAMPLE)
dist, scaled_force_median = smpfunc.scale_profile(min_scaling_coeff, smp_df.distance.values,
                                         smp_df.force_median.values, L_RESAMPLE, H_RESAMPLE)
result = compare_profiles[int(min_scaling_idx)].assign(
    l=smpfunc.extract_samples(dist, scaled_l, density_df.relative_height.values,
                              CUTTER_SIZE).mean_samp,
    force_median=smpfunc.extract_samples(dist, scaled_force_median,
                              density_df.relative_height.values, CUTTER_SIZE).mean_samp)\<close>
\<close>

record ('c) selection =
  sel_min_scaling_idx :: "nat list"
  sel_min_scaling_coeff :: "real list"
  sel_scaled_l :: "real list"
  sel_scaled_force_median :: "real list"
  sel_result :: 'c

definition cell_select :: "('g, 'p, 'c, 't) env \<Rightarrow> 'c search \<Rightarrow> exn + 'c selection" where
  "cell_select E S =
     (let idx_values = min_scaling_idx (s_retrieved_skill S) in
      bind_exn (py_int idx_values) (\<lambda>i.
      bind_exn (py_index (s_random_tests S) i) (\<lambda>min_scaling_coeff.
      bind_exn (scale_profile E min_scaling_coeff (smp_distance (s_smp_df S)) (smp_l (s_smp_df S))
                  L_RESAMPLE H_RESAMPLE) (\<lambda>(dist1, scaled_l).
      bind_exn (scale_profile E min_scaling_coeff (smp_distance (s_smp_df S))
                  (smp_force_median (s_smp_df S)) L_RESAMPLE H_RESAMPLE) (\<lambda>(dist, scaled_force_median).
      bind_exn (py_int idx_values) (\<lambda>j.
      bind_exn (py_index (s_compare_profiles S) j) (\<lambda>best.
      bind_exn (extract_samples E dist scaled_l (s_relative_height S) CUTTER_SIZE) (\<lambda>el.
      bind_exn (mean_samp E el) (\<lambda>l_samp.
      bind_exn (extract_samples E dist scaled_force_median (s_relative_height S) CUTTER_SIZE) (\<lambda>ef.
      bind_exn (mean_samp E ef) (\<lambda>force_samp.
      bind_exn (assign_l_force E best l_samp force_samp) (\<lambda>result.
      Inr \<lparr>sel_min_scaling_idx = idx_values, sel_min_scaling_coeff = min_scaling_coeff,
           sel_scaled_l = scaled_l, sel_scaled_force_median = scaled_force_median,
           sel_result = result\<rparr>))))))))))))"

subsection \<open>The notebook, cell after cell\<close>

text \<open>
  The first cell seeds the global generator, reads the two CSV files and loads the
  recalibrated coefficients; the last cell modelled is \<open>density_k2020\<close>. Cells that
  only print or draw are not modelled.
\<close>

record ('c) matched =
  m_search :: "'c search"
  m_selection :: "'c selection"
  m_density_k2020 :: "real list"

definition matching :: "('g, 'p, 'c, 't) env \<Rightarrow> 'g \<Rightarrow> exn + 'c matched" where
  "matching E np_global =
     (let g = np_random_seed E 2019 np_global in
      bind_exn (read_csv E ''./data/Pit/pit_summary.csv'') (\<lambda>pit_summary.
      bind_exn (read_csv E ''./data/Pit/pit_density.csv'') (\<lambda>pit_desnity.
      let input_data = abspath E ''./data/SMP/Calibration'' in
      bind_exn (pickle_load E ''./output/density_k20b_coeffs.pkl'') (\<lambda>coeffs.
      bind_exn (cell_load E input_data) (\<lambda>smp_data.
      bind_exn (cell_search E pit_summary pit_desnity smp_data g) (\<lambda>(S, g').
      bind_exn (cell_select E S) (\<lambda>sel.
      bind_exn (density_k2020 coeffs (sel_scaled_force_median sel) (sel_scaled_l sel)) (\<lambda>rho.
      Inr \<lparr>m_search = S, m_selection = sel, m_density_k2020 = rho\<rparr>))))))))"

subsection \<open>The ranking of the candidates\<close>

text \<open>
  The ranking the selection is meant to maximise, written from its description: a larger
  correlation \<open>r\<close> is better; at equal \<open>r\<close> a smaller bias-corrected RMSE is better; a
  score that is NaN is worse than any number.
\<close>

definition r_better :: "real option \<Rightarrow> real option \<Rightarrow> bool" where
  "r_better x y =
     (case x of None \<Rightarrow> False | Some u \<Rightarrow> (case y of None \<Rightarrow> True | Some v \<Rightarrow> v < u))"

definition rmse_no_worse :: "real option \<Rightarrow> real option \<Rightarrow> bool" where
  "rmse_no_worse x y =
     (case y of None \<Rightarrow> True | Some v \<Rightarrow> (case x of None \<Rightarrow> False | Some u \<Rightarrow> u \<le> v))"

definition at_least_as_good :: "skill \<Rightarrow> skill \<Rightarrow> bool" where
  "at_least_as_good a b \<longleftrightarrow>
     r_better (skill_r a) (skill_r b)
     \<or> (skill_r a = skill_r b \<and> rmse_no_worse (skill_rmse_corr a) (skill_rmse_corr b))"

subsection \<open>What a K-fold partition is\<close>

text \<open>
  The property of the ten folds, written from its description: the test index sets are
  pairwise disjoint, their union is the set of all row positions, and the training set of
  each fold is the complement of its test set. \<open>kfold_partitions\<close> says that the split of a
  dataset of \<open>n\<close> rows, as both loops of the notebook ask for it, returns such folds.
\<close>

definition covers_exactly_once :: "nat \<Rightarrow> (nat list \<times> nat list) list \<Rightarrow> bool" where
  "covers_exactly_once n folds \<longleftrightarrow>
     length folds = 10
     \<and> (\<forall>j<10. \<forall>k<10. j \<noteq> k \<longrightarrow> set (snd (folds ! j)) \<inter> set (snd (folds ! k)) = {})
     \<and> (\<Union>j<10. set (snd (folds ! j))) = {0..<n}
     \<and> (\<forall>j<10. set (fst (folds ! j)) = {0..<n} - set (snd (folds ! j)))"

definition kfold_partitions :: "('g, 'm) lib \<Rightarrow> 'g \<Rightarrow> nat \<Rightarrow> bool" where
  "kfold_partitions L np_global n =
     (case KFold_split L 10 (Some RANDOM_SEED) np_global n of
        Inl e \<Rightarrow> False
      | Inr folds \<Rightarrow> covers_exactly_once n folds)"

subsection \<open>What is persisted, and the order the coefficients are described in\<close>

definition persisted_k20a :: "files \<Rightarrow> real list option" where
  "persisted_k20a fs = fs ''./output/density_k20a_coeffs.pkl''"

definition persisted_k20b :: "files \<Rightarrow> real list option" where
  "persisted_k20b fs = fs ''./output/density_k20b_coeffs.pkl''"

text \<open>
  The vector as the data model describes it: (intercept, force term, length term,
  interaction term), each the rounded mean of its parameter over the folds.
\<close>

definition described_order :: "real list list \<Rightarrow> real list" where
  "described_order params =
     [np_round2 (mean (map p_Intercept params)), np_round2 (mean (map p_force_log params)),
      np_round2 (mean (map p_l params)), np_round2 (mean (map p_force_log_l params))]"

definition persisted_in_described_order :: "('g, 'm) lib \<Rightarrow> 'g \<Rightarrow> files \<Rightarrow> bool" where
  "persisted_in_described_order L np_global fs =
     (case run_stage_a L np_global of
        Inl e \<Rightarrow> True
      | Inr a \<Rightarrow>
          persisted_k20a (snd (recalibration L np_global fs))
            = Some (described_order (cv_params (a_cv a))))"


section \<open>Example inputs\<close>

text \<open>Small concrete inputs on which the theorems below are instantiated.\<close>

definition frame5 :: frame where
  "frame5 = \<lparr>idx = [0], cols = [(''force_log'', Num [0]), (''l'', Num [5])]\<rparr>"

definition skills3 :: "skill list" where
  "skills3 =
     [\<lparr>skill_r = Some 0.5, skill_rmse = Some 30, skill_rmse_corr = Some 20, skill_mae = Some 25\<rparr>,
      \<lparr>skill_r = None, skill_rmse = Some 10, skill_rmse_corr = Some 1, skill_mae = Some 5\<rparr>,
      \<lparr>skill_r = Some 0.9, skill_rmse = Some 40, skill_rmse_corr = Some 35, skill_mae = Some 30\<rparr>,
      \<lparr>skill_r = Some 0.9, skill_rmse = Some 50, skill_rmse_corr = Some 12, skill_mae = Some 45\<rparr>]"

text \<open>
  A dataset of eleven matched pairs and a library whose shuffle reverses, whose fit always
  returns the parameters \<open>(300, 0, 0, 0)\<close> and whose prediction is the intercept.
\<close>

definition frame11 :: frame where
  "frame11 =
     \<lparr>idx = [0, 1, 2, 3, 4, 5, 6, 7, 8, 9, 10],
      cols =
        [(''force_median'', Num [1, 1, 1, 1, 1, 1, 1, 1, 1, 1, 1]),
         (''l'', Num [1, 1, 1, 1, 1, 1, 1, 1, 1, 1, 1]),
         (''RHO'', Num [300, 301, 302, 303, 304, 305, 306, 307, 308, 309, 310]),
         (''mean_samp'', Num [305, 305, 305, 305, 305, 305, 305, 305, 305, 305, 305]),
         (''error'', Num [5, 4, 3, 2, 1, 0, -1, -2, -3, -4, -5]),
         (''ice_type'', Str [''f'', ''f'', ''f'', ''f'', ''f'', ''f'', ''m'', ''m'', ''m'', ''m'', ''m''])]\<rparr>"

definition lib_ex :: "(unit, real list) lib" where
  "lib_ex =
     \<lparr>RandomState = (\<lambda>seed. ()),
      shuffle = (\<lambda>g xs. rev xs),
      ols_fit = (\<lambda>formula train. Inr [300, 0, 0, 0]),
      params_values = (\<lambda>m. m),
      predict = (\<lambda>m fl l. bind_exn (as_float fl) (\<lambda>xs. Inr (map (\<lambda>x. m ! 0) xs))),
      corrcoef = (\<lambda>a b. 0),
      ma_corrcoef = (\<lambda>a b. 0),
      pearsonr_p = (\<lambda>a b. Inr 0),
      read_pickle = (\<lambda>path. Inr frame11)\<rparr>"

text \<open>The same library with a fit that returns the parameters \<open>(1, 2, 3, 4)\<close>.\<close>

definition lib_1234 :: "(unit, real list) lib" where
  "lib_1234 = lib_ex\<lparr>ols_fit := (\<lambda>formula train. Inr [1, 2, 3, 4])\<rparr>"


text \<open>
  A library whose generator state is a number: an even state leaves the indices in place and
  an odd one reverses them, and \<open>RandomState(seed)\<close> is the state \<open>seed\<close>.
\<close>

definition lib_nat :: "(nat, real list) lib" where
  "lib_nat =
     \<lparr>RandomState = (\<lambda>seed. seed),
      shuffle = (\<lambda>g xs. if even g then xs else rev xs),
      ols_fit = (\<lambda>formula train. Inr [300, 0, 0, 0]),
      params_values = (\<lambda>m. m),
      predict = (\<lambda>m fl l. bind_exn (as_float fl) (\<lambda>xs. Inr (map (\<lambda>x. m ! 0) xs))),
      corrcoef = (\<lambda>a b. 0),
      ma_corrcoef = (\<lambda>a b. 0),
      pearsonr_p = (\<lambda>a b. Inr 0),
      read_pickle = (\<lambda>path. Inr frame11)\<rparr>"

text \<open>
  Eleven matched pairs after the first cell; the last two are the same measurement, and
  under the coefficients \<open>[300, 0, 0, 0]\<close> they have the largest absolute error.
\<close>

definition frame_ties :: frame where
  "frame_ties =
     \<lparr>idx = [0, 1, 2, 3, 4, 5, 6, 7, 8, 9, 10],
      cols =
        [(''force_median'', Num [1, 1, 1, 1, 1, 1, 1, 1, 1, 1, 1]),
         (''l'', Num [1, 1, 1, 1, 1, 1, 1, 1, 1, 1, 1]),
         (''RHO'', Num [300, 301, 302, 303, 304, 305, 306, 307, 308, 320, 320]),
         (''force_log'', Num [0, 0, 0, 0, 0, 0, 0, 0, 0, 0, 0])]\<rparr>"

definition store_ties :: store where
  "store_ties = \<lparr>objs = (\<lambda>a. None)(0 \<mapsto> frame_ties), nxt = 1\<rparr>"

text \<open>
  An environment for the matching notebook: three directory entries, of which the profile
  \<open>S0002.pnt\<close> cannot be read, and a scoring function that raises on an empty comparison.
\<close>

definition env_ex :: "(nat, string, real list, unit) env" where
  "env_ex =
     \<lparr>seed_state = (\<lambda>n. n),
      read_csv = (\<lambda>path. Inr ()),
      abspath = (\<lambda>path. ''/home/user'' @ drop 1 path),
      pickle_load = (\<lambda>path. Inr [300, 0, 0, 0]),
      listdir = (\<lambda>dir. Inr [''S0002.pnt'', ''notes.txt'', ''S0001.pnt'']),
      Profile_load = (\<lambda>f. if f = ''/home/user/data/SMP/Calibration/S0002.pnt''
                           then Inl (OtherError ''corrupt file'') else Inr f),
      preprocess = (\<lambda>p. Inr p),
      detect_ground = (\<lambda>p. Inr (0, p)),
      detect_surface = (\<lambda>p. Inr (0, p)),
      first_guess = (\<lambda>pit_summary pit_density p.
          Inr (\<lparr>smp_distance = [0], smp_density = [300], smp_force_median = [1], smp_l = [1]\<rparr>,
               [15])),
      random_stretch = (\<lambda>n overall layer g. Inr (replicate n 0, Suc g)),
      scale_profile = (\<lambda>test dist values l h. Inr (dist, values)),
      extract_samples = (\<lambda>dist values heights c. Inr values),
      concat_pit = (\<lambda>c. Inr c),
      calc_skill = (\<lambda>c n. if c = [] then Inl ValueError
                            else Inr \<lparr>skill_r = None, skill_rmse = Some 0,
                                      skill_rmse_corr = Some 0, skill_mae = Some 0\<rparr>),
      mean_samp = (\<lambda>c. Inr c),
      assign_l_force = (\<lambda>c l f. Inr c)\<rparr>"

section \<open>Properties\<close>

subsection \<open>Sequencing and indexing\<close>

lemma bind_exn_Inl [simp]: "bind_exn (Inl e) f = Inl e"
  by (simp add: bind_exn_def)

lemma bind_exn_Inr [simp]: "bind_exn (Inr x) f = f x"
  by (simp add: bind_exn_def)

lemma bind_exn_eq_Inr:
  "bind_exn m f = Inr y \<longleftrightarrow> (\<exists>x. m = Inr x \<and> f x = Inr y)"
  by (cases m) simp_all

lemma py_index_Inr: "i < length xs \<Longrightarrow> py_index xs i = Inr (xs ! i)"
  by (simp add: py_index_def)

lemma density_k2020_value:
  assumes "4 \<le> length coeffs" and "length F = length L"
  shows "density_k2020 coeffs F L =
           Inr (map2 (\<lambda>f l. coeffs ! 0 + coeffs ! 1 * ln f + coeffs ! 2 * ln f * l + coeffs ! 3 * l) F L)"
proof -
  have idx: "py_index coeffs 0 = Inr (coeffs ! 0)" "py_index coeffs 1 = Inr (coeffs ! 1)"
    "py_index coeffs 2 = Inr (coeffs ! 2)" "py_index coeffs 3 = Inr (coeffs ! 3)"
    using assms(1) by (auto simp add: py_index_def)
  have "density_k2020 coeffs F L =
     Inr (map2 (+) (map2 (+) (map (\<lambda>x. coeffs ! 0 + x) (map (\<lambda>x. coeffs ! 1 * x) (map ln F)))
                             (map2 (*) (map (\<lambda>x. coeffs ! 2 * x) (map ln F)) L))
                   (map (\<lambda>x. coeffs ! 3 * x) L))"
    unfolding density_k2020_def idx
    by (simp add: assms(2) np_binop_def np_scalar_mul_def np_scalar_add_def np_log_def Let_def
             del: One_nat_def map_map)
  also have "\<dots> = Inr (map2 (\<lambda>f l. coeffs ! 0 + coeffs ! 1 * ln f + coeffs ! 2 * ln f * l + coeffs ! 3 * l) F L)"
    using assms(2) by (auto intro!: nth_equalityI)
  finally show ?thesis .
qed

lemma k20_rho_value:
  assumes "4 \<le> length coeff" and fl: "getnum df ''force_log'' = Inr fl"
    and l: "getnum df ''l'' = Inr L" and "length fl = length L"
  shows "k20_rho coeff df =
           Inr (map2 (\<lambda>x l. coeff ! 0 + coeff ! 1 * x + coeff ! 2 * x * l + coeff ! 3 * l) fl L)"
proof -
  have idx: "py_index coeff 0 = Inr (coeff ! 0)" "py_index coeff 1 = Inr (coeff ! 1)"
    "py_index coeff 2 = Inr (coeff ! 2)" "py_index coeff 3 = Inr (coeff ! 3)"
    using assms(1) by (auto simp add: py_index_def)
  have "k20_rho coeff df =
     Inr (map2 (+) (map2 (+) (map (\<lambda>x. coeff ! 0 + x) (map (\<lambda>x. coeff ! 1 * x) fl))
                             (map2 (*) (map (\<lambda>x. coeff ! 2 * x) fl) L))
                   (map (\<lambda>x. coeff ! 3 * x) L))"
    unfolding k20_rho_def idx fl l
    by (simp add: np_scalar_mul_def np_scalar_add_def Let_def del: One_nat_def map_map)
  also have "\<dots> = Inr (map2 (\<lambda>x l. coeff ! 0 + coeff ! 1 * x + coeff ! 2 * x * l + coeff ! 3 * l) fl L)"
    using assms(4) by (auto intro!: nth_equalityI)
  finally show ?thesis .
qed

lemma getnum_frame5:
  "getnum frame5 ''force_log'' = Inr (np_log [1])" "getnum frame5 ''l'' = Inr [5]"
  by (simp_all add: getnum_def getitem_def frame5_def as_float_def np_log_def)

subsection \<open>C5: the density estimate is the bilinear expression\<close>

text \<open>
  Claim C5. For every SMP sample with median force \<open>F\<close> and length scale \<open>L\<close>, the density
  that a coefficient vector \<open>c\<close> gives is \<open>c[0] + c[1]*ln(F) + c[2]*ln(F)*L + c[3]*L\<close>, one
  value per sample. This holds for the array expression \<open>density_k2020\<close> of the matching
  notebook and for the series expression \<open>k20a_rho\<close>/\<open>k20b_rho\<close> of the recalibration
  notebook, whose column \<open>force_log\<close> is \<open>np.log(force_median)\<close>. The vector has its four
  entries, the two inputs have one entry per sample, and the forces are positive (on other
  forces NumPy's logarithm is \<open>-inf\<close> or NaN, which a real number does not model).
\<close>

theorem density_bilinear:
  assumes "4 \<le> length c" and "length F = length L" and "list_all (\<lambda>f. 0 < f) F"
    and "getnum df ''force_log'' = Inr (np_log F)" and "getnum df ''l'' = Inr L"
  shows "(\<exists>rho. density_k2020 c F L = Inr rho \<and> length rho = length F \<and>
            (\<forall>i<length F. rho ! i = c ! 0 + c ! 1 * ln (F ! i) + c ! 2 * ln (F ! i) * L ! i + c ! 3 * L ! i))
       \<and> (\<exists>rho. k20_rho c df = Inr rho \<and> length rho = length F \<and>
            (\<forall>i<length F. rho ! i = c ! 0 + c ! 1 * ln (F ! i) + c ! 2 * ln (F ! i) * L ! i + c ! 3 * L ! i))"
proof -
  have "length (np_log F) = length L" using assms(2) by (simp add: np_log_def)
  from k20_rho_value[OF assms(1,4,5) this] density_k2020_value[OF assms(1,2)] assms(2)
  show ?thesis by (simp add: np_log_def)
qed

theorem density_bilinear_witness:
  "4 \<le> length [1, 2, 3, 4 :: real] \<and> list_all (\<lambda>f. 0 < f) [1 :: real]
   \<and> density_k2020 [1, 2, 3, 4] [1] [5] = Inr [21] \<and> k20_rho [1, 2, 3, 4] frame5 = Inr [21]"
  using density_bilinear [of "[1, 2, 3, 4]" "[1]" "[5]" frame5] getnum_frame5
  by (auto simp add: length_Suc_conv)

subsection \<open>The sort key and the ranking\<close>

lemma key_le_imp_at_least_as_good:
  assumes "(descending_key (skill_r a), ascending_key (skill_rmse_corr a))
           \<le> (descending_key (skill_r b), ascending_key (skill_rmse_corr b))"
  shows "at_least_as_good a b"
  using assms
  by (auto simp add: less_eq_prod_def less_prod_def descending_key_def ascending_key_def
      at_least_as_good_def r_better_def rmse_no_worse_def split: option.splits)

lemma hd_sort_key_le:
  assumes "x \<in> set xs"
  shows "f (hd (sort_key f xs)) \<le> f x"
proof -
  have s: "sorted (map f (sort_key f xs))" by (rule sorted_sort_key)
  have m: "x \<in> set (sort_key f xs)" using assms by simp
  then obtain y ys where e: "sort_key f xs = y # ys" by (cases "sort_key f xs") auto
  show ?thesis using s m unfolding e by auto
qed

subsection \<open>C1: the selected candidate is the best of the sampled ones\<close>

text \<open>
  Claim C1. The candidate that the alignment search selects is greatest under the ranking
  (correlation \<open>r\<close> descending, ties broken by the bias-corrected RMSE ascending) among all
  sampled candidates: whenever there is at least one candidate, \<open>int(min_scaling_idx)\<close> is
  the position \<open>i\<close> of a candidate, and the scores of candidate \<open>i\<close> are at least as good as
  those of every candidate \<open>j\<close>.
\<close>

theorem selected_candidate_is_best:
  assumes "retrieved_skill \<noteq> []"
  shows "\<exists>i. py_int (min_scaling_idx retrieved_skill) = Inr i \<and> i < length retrieved_skill \<and>
           (\<forall>j<length retrieved_skill.
              at_least_as_good (retrieved_skill ! i) (retrieved_skill ! j))"
proof -
  define rows where "rows = zip [0..<length retrieved_skill] retrieved_skill"
  define key where "key = (\<lambda>row :: nat \<times> skill.
    (descending_key (skill_r (snd row)), ascending_key (skill_rmse_corr (snd row))))"
  define srt where "srt = sort_key key rows"
  have srt: "sort_values_r_rmse_corr rows = srt"
    unfolding srt_def key_def sort_values_r_rmse_corr_def ..
  have mem: "(j, retrieved_skill ! j) \<in> set rows" if "j < length retrieved_skill" for j
    using that unfolding rows_def by (auto simp add: in_set_zip intro!: exI[of _ j])
  have "0 < length retrieved_skill" using assms by simp
  from mem[OF this] have "set srt \<noteq> {}"
    unfolding srt_def by auto
  then obtain y ys where e: "srt = y # ys" by (cases srt) auto
  have "set srt = set rows" unfolding srt_def by simp
  then have "y \<in> set rows" using e by auto
  then have yi: "fst y < length retrieved_skill" "snd y = retrieved_skill ! fst y"
    unfolding rows_def by (auto simp add: in_set_zip)
  have "min_scaling_idx retrieved_skill = map fst (take 1 srt)"
    unfolding min_scaling_idx_def rows_def[symmetric] srt ..
  then have idx: "py_int (min_scaling_idx retrieved_skill) = Inr (fst y)"
    by (simp add: e py_int_def)
  have best: "at_least_as_good (retrieved_skill ! fst y) (retrieved_skill ! j)"
    if "j < length retrieved_skill" for j
  proof -
    have "key (hd srt) \<le> key (j, retrieved_skill ! j)"
      unfolding srt_def by (rule hd_sort_key_le[OF mem[OF that]])
    then have "key y \<le> key (j, retrieved_skill ! j)" using e by simp
    then have "at_least_as_good (snd y) (retrieved_skill ! j)"
      unfolding key_def snd_conv by (rule key_le_imp_at_least_as_good)
    then show ?thesis using yi(2) by simp
  qed
  show ?thesis using idx yi(1) best by blast
qed

lemma min_scaling_idx_skills3: "min_scaling_idx skills3 = [3]"
  by (simp add: min_scaling_idx_def sort_values_r_rmse_corr_def skills3_def
      descending_key_def ascending_key_def less_eq_prod_def less_prod_def)

theorem selected_candidate_is_best_witness:
  "skills3 \<noteq> [] \<and> py_int (min_scaling_idx skills3) = Inr 3
   \<and> at_least_as_good (skills3 ! 3) (skills3 ! 0) \<and> at_least_as_good (skills3 ! 3) (skills3 ! 1)
   \<and> at_least_as_good (skills3 ! 3) (skills3 ! 2)"
proof -
  have ne: "skills3 \<noteq> []" by (simp add: skills3_def)
  have len: "length skills3 = 4" by (simp add: skills3_def)
  from selected_candidate_is_best[OF ne] min_scaling_idx_skills3 len
  show ?thesis using ne by (auto simp add: py_int_def)
qed

subsection \<open>Slices of the shuffled indices\<close>

lemma length_slices: "length (slices xs ms) = length ms"
  by (induction ms arbitrary: xs) simp_all

lemma concat_slices: "sum_list ms = length xs \<Longrightarrow> concat (slices xs ms) = xs"
proof (induction ms arbitrary: xs)
  case Nil
  then show ?case by simp
next
  case (Cons m ms)
  then have "sum_list ms = length (drop m xs)" by simp
  from Cons.IH[OF this] show ?case by simp
qed

lemma sum_list_indicator:
  "sum_list (map (\<lambda>i. a + (if i < m then 1 else 0)) [0..<k]) = k * a + min m k"
  by (induction k) auto

lemma sum_list_fold_sizes: "0 < k \<Longrightarrow> sum_list (fold_sizes n k) = n"
  unfolding fold_sizes_def sum_list_indicator by (simp add: min_def)

lemma length_fold_sizes: "length (fold_sizes n k) = k"
  by (simp add: fold_sizes_def)

lemma distinct_concat_nth_disjoint:
  "distinct (concat xss) \<Longrightarrow> j < k \<Longrightarrow> k < length xss \<Longrightarrow> set (xss ! j) \<inter> set (xss ! k) = {}"
proof (induction xss arbitrary: j k)
  case Nil
  then show ?case by simp
next
  case (Cons xs xss)
  obtain k' where k: "k = Suc k'" using Cons.prems(2) by (cases k) auto
  show ?case
  proof (cases j)
    case 0
    have "xss ! k' \<in> set xss" using Cons.prems(3) k by simp
    then have "set (xss ! k') \<subseteq> set (concat xss)" by auto
    then show ?thesis using Cons.prems(1) 0 k by auto
  next
    case (Suc j')
    then show ?thesis using Cons k by auto
  qed
qed


lemma set_test_filter:
  "set t \<subseteq> {0..<n} \<Longrightarrow> set (filter (\<lambda>i. i \<in> set t) [0..<n]) = set t"
  by auto

lemma set_train_filter:
  "set (filter (\<lambda>i. i \<notin> set t) [0..<n]) = {0..<n} - set t"
  by auto

lemma KFold_split_partitions:
  assumes n: "10 \<le> n"
    and perm: "mset (shuffle L (check_random_state L rs g) [0..<n]) = mset [0..<n]"
  shows "\<exists>folds. KFold_split L 10 rs g n = Inr folds \<and> covers_exactly_once n folds"
proof -
  define indices where "indices = shuffle L (check_random_state L rs g) [0..<n]"
  define tests where "tests = slices indices (fold_sizes n 10)"
  define folds where "folds = map (\<lambda>test_index.
      (filter (\<lambda>i. i \<notin> set test_index) [0..<n], filter (\<lambda>i. i \<in> set test_index) [0..<n])) tests"
  have split: "KFold_split L 10 rs g n = Inr folds"
    using n unfolding KFold_split_def folds_def tests_def indices_def by (simp add: Let_def)
  have d: "distinct indices" and si: "set indices = {0..<n}" and li: "length indices = n"
    using perm mset_eq_imp_distinct_iff[OF perm] mset_eq_setD[OF perm] mset_eq_length[OF perm]
    unfolding indices_def by simp_all
  have lt: "length tests = 10" by (simp add: tests_def length_slices length_fold_sizes)
  have ct: "concat tests = indices"
    unfolding tests_def by (rule concat_slices) (simp add: sum_list_fold_sizes li)
  have sub: "set (tests ! j) \<subseteq> {0..<n}" if "j < 10" for j
  proof -
    have "tests ! j \<in> set tests" using that lt by simp
    then have "set (tests ! j) \<subseteq> set (concat tests)" by auto
    then show ?thesis by (simp add: ct si)
  qed
  have f1: "set (snd (folds ! j)) = set (tests ! j)" if "j < 10" for j
    using that lt sub[OF that] by (auto simp add: folds_def)
  have f2: "set (fst (folds ! j)) = {0..<n} - set (tests ! j)" if "j < 10" for j
    using that lt by (auto simp add: folds_def)
  have disj: "set (tests ! j) \<inter> set (tests ! k) = {}" if "j < 10" "k < 10" "j \<noteq> k" for j k
  proof (cases "j < k")
    case True
    then show ?thesis using distinct_concat_nth_disjoint[of tests j k] d ct that lt by simp
  next
    case False
    then have "k < j" using that by simp
    then show ?thesis using distinct_concat_nth_disjoint[of tests k j] d ct that lt by auto
  qed
  have un: "(\<Union>j<10. set (tests ! j)) = {0..<n}"
  proof -
    have "(\<Union>j<10. set (tests ! j)) = \<Union> (set ` set tests)"
      using lt by (auto simp add: set_conv_nth)
    also have "\<dots> = set (concat tests)" by simp
    finally show ?thesis by (simp add: ct si)
  qed
  have "covers_exactly_once n folds"
    unfolding covers_exactly_once_def
    using lt un disj f1 f2 by (simp add: folds_def)
  with split show ?thesis by blast
qed


subsection \<open>C2: the ten folds cover every row exactly once\<close>

text \<open>
  Claim C2, as stated, is for every input dataset. \<open>KFold.split\<close> raises \<open>ValueError\<close> on a
  dataset of fewer than ten rows, so there the rows are assigned to no fold at all.
\<close>

theorem kfold_nine_rows_counterexample: "\<not> kfold_partitions lib_ex () 9"
  by (simp add: kfold_partitions_def KFold_split_def)

text \<open>
  Claim C2, amended. For every input dataset of at least ten rows, the 10-fold partitioning
  used in recalibration assigns every row to exactly one test fold: the ten test index sets
  are pairwise disjoint, their union is the full set of row positions, and in each fold the
  training set is the complement of the test set. The generator's shuffle returns a
  permutation of the indices it is given.
\<close>

theorem kfold_covers_every_row_once:
  assumes "10 \<le> n"
    and "mset (shuffle L (RandomState L RANDOM_SEED) [0..<n]) = mset [0..<n]"
  shows "kfold_partitions L np_global n"
proof -
  have "mset (shuffle L (check_random_state L (Some RANDOM_SEED) np_global) [0..<n]) = mset [0..<n]"
    using assms(2) by (simp add: check_random_state_def)
  from KFold_split_partitions[OF assms(1) this] show ?thesis
    by (auto simp add: kfold_partitions_def)
qed

theorem kfold_covers_every_row_once_witness:
  "(10 :: nat) \<le> 10
   \<and> mset (shuffle lib_ex (RandomState lib_ex RANDOM_SEED) [0..<10]) = mset [0..<10]
   \<and> kfold_partitions lib_ex () 10"
proof -
  have p: "mset (shuffle lib_ex (RandomState lib_ex RANDOM_SEED) [0..<10]) = mset [0..<10]"
    by (simp add: lib_ex_def)
  from kfold_covers_every_row_once[OF _ p, of "()"] p show ?thesis by simp
qed

subsection \<open>Evaluating a run on the example inputs\<close>

lemma bind_exn_weak_cong: "m = m' \<Longrightarrow> bind_exn m f = bind_exn m' f"
  by simp

lemma upt_0_10: "[0..<10] = [0, 1, 2, 3, 4, 5, 6, 7, 8, 9]"
  by (simp add: upt_conv_Cons)

lemma upt_0_11: "[0..<11] = [0, 1, 2, 3, 4, 5, 6, 7, 8, 9, 10]"
  by (simp add: upt_conv_Cons)

lemmas eval_defs =
  alloc_def empty_store_def deref_def getnum_def getitem_def as_float_def assign_col_def
  setitem_def col_len_def len_def np_log_def cell_kfold_def KFold_split_def check_random_state_def
  fold_sizes_def iloc_def take_rows_def map_column_def fold_step_def vstack_def
  model_coeff_def params_column_def mean_def np_std_def np_round2_def rint_def cell_stats_def
  copy_def boolean_index_def mask_rows_def series_lt_def quantile_def k20_rho_def py_index_def
  np_scalar_add_def np_scalar_mul_def cell_p2015_def cell_error_columns_def cell_outliers_def
  upt_0_10

subsection \<open>The store across the stages of the recalibration notebook\<close>

lemma assign_col_frame:
  assumes "assign_col a c v s = Inr s'"
  shows "nxt s' = nxt s \<and> (\<forall>b. b \<noteq> a \<longrightarrow> objs s' b = objs s b)"
  using assms by (auto simp add: assign_col_def bind_exn_eq_Inr)

lemma cell_outliers_frame:
  assumes "result < nxt s"
    and "cell_outliers result k20a_rho s = Inr (result_lim, q_95, n_removed, s')"
  shows "objs s' result = objs s result \<and> result < result_lim \<and> result_lim < nxt s'"
  using assms unfolding cell_outliers_def copy_def alloc_def Let_def
  by (auto simp add: bind_exn_eq_Inr split: prod.splits dest!: assign_col_frame)

lemma cell_error_columns_frame:
  assumes "cell_error_columns result_lim k20b_rho s = Inr s'" and "result \<noteq> result_lim"
  shows "objs s' result = objs s result"
  using assms unfolding cell_error_columns_def
  by (auto simp add: bind_exn_eq_Inr dest!: assign_col_frame)

lemma cell_p2015_cong:
  "objs s' result = objs s result \<Longrightarrow> cell_p2015 L result s' = cell_p2015 L result s"
  by (simp add: cell_p2015_def deref_def)

lemma bind_exn_InrE:
  assumes "bind_exn m f = Inr y"
  obtains x where "m = Inr x" and "f x = Inr y"
  using assms by (cases m) simp_all

lemma run_stage_b_frame:
  assumes "a_result a < nxt (a_store a)" and "run_stage_b L g a = Inr b"
  shows "objs (b_store b) (a_result a) = objs (a_store a) (a_result a)
         \<and> a_result a < b_result_lim b"
proof -
  from assms(2) obtain d k20a_rho z where
    o: "cell_outliers (a_result a) k20a_rho (a_store a) = Inr z"
    and r: "(case z of (result_lim, q_95, n_removed, s) \<Rightarrow>
       bind_exn (deref s result_lim) (\<lambda>dl.
       bind_exn (cell_kfold L g ''RHO ~ force_log + force_log * l + l'' dl) (\<lambda>acc.
       bind_exn (model_coeff (cv_params acc)) (\<lambda>(model_k20b_coeff, var_coeffs).
       Inr \<lparr>b_k20a_rho = k20a_rho, b_result_lim = result_lim, b_q_95 = q_95,
            b_n_removed = n_removed, b_store = s, b_cv = acc, b_stats = cell_stats acc,
            b_coeff = model_k20b_coeff\<rparr>)))) = Inr b"
    unfolding run_stage_b_def by (elim bind_exn_InrE) blast
  obtain result_lim q_95 n_removed s where z: "z = (result_lim, q_95, n_removed, s)"
    by (cases z) auto
  from r have "b_result_lim b = result_lim \<and> b_store b = s"
    unfolding z prod.case by (elim bind_exn_InrE) (auto split: prod.splits)
  with cell_outliers_frame[OF assms(1) o[unfolded z]] show ?thesis by simp
qed

lemma run_stage_a_allocated:
  assumes "run_stage_a L g = Inr a"
  shows "a_result a < nxt (a_store a)"
  using assms unfolding run_stage_a_def alloc_def empty_store_def Let_def
  by (simp, elim bind_exn_InrE) (auto split: prod.splits dest!: assign_col_frame)

lemma run_stage_c_frame:
  assumes "run_stage_c L a b = Inr out" and "a_result a \<noteq> b_result_lim b"
  shows "objs (out_store out) (a_result a) = objs (b_store b) (a_result a)
         \<and> cell_p2015 L (a_result a) (b_store b) = Inr (out_p2015 out)
         \<and> out_a out = a \<and> out_b out = b"
  using assms unfolding run_stage_c_def
  by (elim bind_exn_InrE) (auto dest!: cell_error_columns_frame)

lemma recalibration_Inr:
  assumes "recalibration L g fs = (Inr out, fs')"
  shows "run_stage_a L g = Inr (out_a out) \<and> run_stage_b L g (out_a out) = Inr (out_b out)
         \<and> run_stage_c L (out_a out) (out_b out) = Inr out
         \<and> fs' = fs(''./output/density_k20a_coeffs.pkl'' \<mapsto> a_coeff (out_a out),
                     ''./output/density_k20b_coeffs.pkl'' \<mapsto> b_coeff (out_b out))"
proof -
  from assms obtain a where a: "run_stage_a L g = Inr a"
    unfolding recalibration_def by (cases "run_stage_a L g") auto
  from assms a obtain b where b: "run_stage_b L g a = Inr b"
    unfolding recalibration_def Let_def by (cases "run_stage_b L g a") auto
  from assms a b have c: "run_stage_c L a b = Inr out"
    and f: "fs' = fs(''./output/density_k20a_coeffs.pkl'' \<mapsto> a_coeff a,
                     ''./output/density_k20b_coeffs.pkl'' \<mapsto> b_coeff b)"
    unfolding recalibration_def Let_def by (cases "run_stage_c L a b"; simp)+
  from c have "out_a out = a \<and> out_b out = b"
    unfolding run_stage_c_def by (elim bind_exn_InrE) auto
  with a b c f show ?thesis by simp
qed

subsection \<open>C10: outlier removal works on a copy\<close>

text \<open>
  Claim C10. Outlier removal leaves the original matched dataset unchanged: it works on a
  copy, so in a complete run the object that \<open>result\<close> refers to is, after the filtering
  cell (store \<open>b_store\<close>) and still at the end of the notebook (store \<open>out_store\<close>), the
  object it was before the filtering (store \<open>a_store\<close>); \<open>result_lim\<close> refers to another
  object; and the P15 statistics of the run are the ones computed over the full, unfiltered
  dataset.
\<close>

theorem outlier_removal_keeps_result:
  assumes "recalibration L np_global fs = (Inr out, fs')"
  shows "objs (b_store (out_b out)) (a_result (out_a out))
           = objs (a_store (out_a out)) (a_result (out_a out))
       \<and> objs (out_store out) (a_result (out_a out))
           = objs (a_store (out_a out)) (a_result (out_a out))
       \<and> b_result_lim (out_b out) \<noteq> a_result (out_a out)
       \<and> cell_p2015 L (a_result (out_a out)) (a_store (out_a out)) = Inr (out_p2015 out)"
proof -
  from recalibration_Inr[OF assms] have a: "run_stage_a L np_global = Inr (out_a out)"
    and b: "run_stage_b L np_global (out_a out) = Inr (out_b out)"
    and c: "run_stage_c L (out_a out) (out_b out) = Inr out" by simp_all
  note al = run_stage_a_allocated[OF a]
  note fb = run_stage_b_frame[OF al b]
  then have ne: "a_result (out_a out) \<noteq> b_result_lim (out_b out)" by simp
  note fc = run_stage_c_frame[OF c ne]
  show ?thesis using fb fc cell_p2015_cong[of "b_store (out_b out)" "a_result (out_a out)" "a_store (out_a out)" L]
    by auto
qed


lemma recalibration_ex:
  "\<exists>out fs'. recalibration lib_ex () (\<lambda>path. None) = (Inr out, fs')"
  unfolding recalibration_def run_stage_a_def run_stage_b_def run_stage_c_def lib_ex_def frame11_def
  by (simp add: eval_defs Let_def cong: bind_exn_weak_cong)

theorem outlier_removal_keeps_result_witness:
  "\<exists>out fs'. recalibration lib_ex () (\<lambda>path. None) = (Inr out, fs')
     \<and> objs (out_store out) (a_result (out_a out)) = objs (a_store (out_a out)) (a_result (out_a out))
     \<and> cell_p2015 lib_ex (a_result (out_a out)) (a_store (out_a out)) = Inr (out_p2015 out)"
proof -
  from recalibration_ex obtain out fs' where
    r: "recalibration lib_ex () (\<lambda>path. None) = (Inr out, fs')" by blast
  from outlier_removal_keeps_result[OF r] r show ?thesis by blast
qed

subsection \<open>Columns of the parameter matrix\<close>

lemma params_column_Inr:
  "params_column params j = Inr c \<Longrightarrow> c = map (\<lambda>row. row ! j) params"
  by (auto simp add: params_column_def split: list.splits if_splits)

lemma model_coeff_Inr:
  assumes "model_coeff params = Inr (coeff, v)"
  shows "coeff = [np_round2 (mean (map p_Intercept params)), np_round2 (mean (map p_force_log params)),
                  np_round2 (mean (map p_force_log_l params)), np_round2 (mean (map p_l params))]"
  using assms unfolding model_coeff_def p_Intercept_def p_force_log_def p_l_def p_force_log_l_def
  by (elim bind_exn_InrE) (auto dest!: params_column_Inr)

lemma run_stage_a_Inr:
  assumes "run_stage_a L g = Inr a"
  shows "\<exists>d1 v. deref (a_store a) (a_result a) = Inr d1
           \<and> cell_kfold L g ''RHO ~ force_log + force_log * l'' d1 = Inr (a_cv a)
           \<and> model_coeff (cv_params (a_cv a)) = Inr (a_coeff a, v)"
  using assms unfolding run_stage_a_def alloc_def empty_store_def Let_def
  by (simp, elim bind_exn_InrE) (auto split: prod.splits)

lemma run_stage_b_Inr:
  assumes "run_stage_b L g a = Inr b"
  shows "\<exists>d k20a_rho dl v. deref (a_store a) (a_result a) = Inr d
           \<and> k20_rho (a_coeff a) d = Inr k20a_rho
           \<and> cell_outliers (a_result a) k20a_rho (a_store a)
               = Inr (b_result_lim b, b_q_95 b, b_n_removed b, b_store b)
           \<and> deref (b_store b) (b_result_lim b) = Inr dl
           \<and> cell_kfold L g ''RHO ~ force_log + force_log * l + l'' dl = Inr (b_cv b)
           \<and> model_coeff (cv_params (b_cv b)) = Inr (b_coeff b, v)"
proof -
  from assms obtain d k20a_rho z where
    d: "deref (a_store a) (a_result a) = Inr d" and k: "k20_rho (a_coeff a) d = Inr k20a_rho"
    and o: "cell_outliers (a_result a) k20a_rho (a_store a) = Inr z"
    and r: "(case z of (result_lim, q_95, n_removed, s) \<Rightarrow>
       bind_exn (deref s result_lim) (\<lambda>dl.
       bind_exn (cell_kfold L g ''RHO ~ force_log + force_log * l + l'' dl) (\<lambda>acc.
       bind_exn (model_coeff (cv_params acc)) (\<lambda>(model_k20b_coeff, var_coeffs).
       Inr \<lparr>b_k20a_rho = k20a_rho, b_result_lim = result_lim, b_q_95 = q_95,
            b_n_removed = n_removed, b_store = s, b_cv = acc, b_stats = cell_stats acc,
            b_coeff = model_k20b_coeff\<rparr>)))) = Inr b"
    unfolding run_stage_b_def by (elim bind_exn_InrE) blast
  obtain result_lim q_95 n_removed s where z: "z = (result_lim, q_95, n_removed, s)"
    by (cases z) auto
  from r have "\<exists>dl v. deref s result_lim = Inr dl
      \<and> cell_kfold L g ''RHO ~ force_log + force_log * l + l'' dl = Inr (b_cv b)
      \<and> model_coeff (cv_params (b_cv b)) = Inr (b_coeff b, v)
      \<and> b_result_lim b = result_lim \<and> b_q_95 b = q_95 \<and> b_n_removed b = n_removed \<and> b_store b = s"
    unfolding z prod.case by (elim bind_exn_InrE) (auto split: prod.splits)
  with d k o[unfolded z] show ?thesis by auto
qed

lemma run_stage_a_coeff:
  assumes "run_stage_a L g = Inr a"
  shows "\<exists>v. model_coeff (cv_params (a_cv a)) = Inr (a_coeff a, v)"
  using run_stage_a_Inr[OF assms] by blast

lemma run_stage_b_coeff:
  assumes "run_stage_b L g a = Inr b"
  shows "\<exists>v. model_coeff (cv_params (b_cv b)) = Inr (b_coeff b, v)"
  using run_stage_b_Inr[OF assms] by blast

lemma persisted_after_stage_a:
  assumes "run_stage_a L g = Inr a"
  shows "persisted_k20a (snd (recalibration L g fs)) = Some (a_coeff a)"
  using assms unfolding recalibration_def persisted_k20a_def Let_def
  by (auto split: sum.splits)

lemma persisted_after_stage_b:
  assumes "run_stage_a L g = Inr a" and "run_stage_b L g a = Inr b"
  shows "persisted_k20b (snd (recalibration L g fs)) = Some (b_coeff b)"
  using assms unfolding recalibration_def persisted_k20b_def Let_def
  by (auto split: sum.splits)

subsection \<open>C4: the persisted coefficient vector\<close>

text \<open>
  Claim C4, as stated, has the persisted vector in the order (intercept, force term, length
  term, interaction term). With per-fold parameters \<open>(1, 2, 3, 4)\<close> for (Intercept,
  \<open>force_log\<close>, \<open>l\<close>, \<open>force_log:l\<close>) the notebook persists \<open>[1, 2, 4, 3]\<close>: the third
  entry is the interaction term and the fourth the length term.
\<close>

theorem persisted_order_counterexample:
  "\<not> persisted_in_described_order lib_1234 () (\<lambda>path. None)"
  unfolding persisted_in_described_order_def persisted_k20a_def described_order_def
    recalibration_def run_stage_a_def run_stage_b_def run_stage_c_def lib_1234_def lib_ex_def
    frame11_def p_Intercept_def p_force_log_def p_l_def p_force_log_l_def
  by (simp add: eval_defs Let_def cong: bind_exn_weak_cong)

text \<open>
  Claim C4, amended. The persisted recalibrated-coefficient value is a vector of exactly 4
  entries in the order (intercept, force term, interaction term, length term), for every run
  that reaches the persistence step: of the K20a coefficients when the first stage of the
  notebook completes, and of the K20b coefficients when the second does.
\<close>

theorem persisted_coefficient_vector:
  assumes "run_stage_a L np_global = Inr a"
  shows "persisted_k20a (snd (recalibration L np_global fs)) = Some (a_coeff a)
       \<and> length (a_coeff a) = 4
       \<and> a_coeff a = [np_round2 (mean (map p_Intercept (cv_params (a_cv a)))),
                      np_round2 (mean (map p_force_log (cv_params (a_cv a)))),
                      np_round2 (mean (map p_force_log_l (cv_params (a_cv a)))),
                      np_round2 (mean (map p_l (cv_params (a_cv a))))]
       \<and> (\<forall>b. run_stage_b L np_global a = Inr b \<longrightarrow>
             persisted_k20b (snd (recalibration L np_global fs)) = Some (b_coeff b)
           \<and> length (b_coeff b) = 4
           \<and> b_coeff b = [np_round2 (mean (map p_Intercept (cv_params (b_cv b)))),
                          np_round2 (mean (map p_force_log (cv_params (b_cv b)))),
                          np_round2 (mean (map p_force_log_l (cv_params (b_cv b)))),
                          np_round2 (mean (map p_l (cv_params (b_cv b))))])"
proof -
  from run_stage_a_coeff[OF assms] obtain v where "model_coeff (cv_params (a_cv a)) = Inr (a_coeff a, v)" ..
  note ca = model_coeff_Inr[OF this]
  have cb: "b_coeff b = [np_round2 (mean (map p_Intercept (cv_params (b_cv b)))),
                          np_round2 (mean (map p_force_log (cv_params (b_cv b)))),
                          np_round2 (mean (map p_force_log_l (cv_params (b_cv b)))),
                          np_round2 (mean (map p_l (cv_params (b_cv b))))]"
    if "run_stage_b L np_global a = Inr b" for b
  proof -
    from run_stage_b_coeff[OF that] obtain w where "model_coeff (cv_params (b_cv b)) = Inr (b_coeff b, w)" ..
    then show ?thesis by (rule model_coeff_Inr)
  qed
  have lb: "length (b_coeff b) = 4" if "run_stage_b L np_global a = Inr b" for b
    by (subst cb[OF that]) simp
  have la: "length (a_coeff a) = 4" by (subst ca) simp
  show ?thesis
    using persisted_after_stage_a[OF assms] persisted_after_stage_b[OF assms] ca la cb lb
    by blast
qed

lemma stage_ab_ex:
  "\<exists>a b. run_stage_a lib_ex () = Inr a \<and> run_stage_b lib_ex () a = Inr b
     \<and> a_coeff a = [300, 0, 0, 0] \<and> b_coeff b = [300, 0, 0, 0]"
  unfolding run_stage_a_def run_stage_b_def lib_ex_def frame11_def
  by (simp add: eval_defs Let_def cong: bind_exn_weak_cong)

theorem persisted_coefficient_vector_witness:
  "\<exists>a b. run_stage_a lib_ex () = Inr a \<and> run_stage_b lib_ex () a = Inr b
     \<and> persisted_k20a (snd (recalibration lib_ex () (\<lambda>path. None))) = Some [300, 0, 0, 0]
     \<and> persisted_k20b (snd (recalibration lib_ex () (\<lambda>path. None))) = Some [300, 0, 0, 0]"
proof -
  from stage_ab_ex obtain a b where a: "run_stage_a lib_ex () = Inr a"
    and b: "run_stage_b lib_ex () a = Inr b"
    and c: "a_coeff a = [300, 0, 0, 0]" "b_coeff b = [300, 0, 0, 0]" by blast
  from persisted_coefficient_vector[OF a, of "\<lambda>path. None"] b c
  have "persisted_k20a (snd (recalibration lib_ex () (\<lambda>path. None))) = Some [300, 0, 0, 0]
     \<and> persisted_k20b (snd (recalibration lib_ex () (\<lambda>path. None))) = Some [300, 0, 0, 0]"
    by simp
  with a b show ?thesis by blast
qed

subsection \<open>The parameters that the loop stacks\<close>








subsection \<open>C6: the persisted coefficients are the rounded means over the folds\<close>




subsection \<open>The first exception of a loop or comprehension\<close>




subsection \<open>C8: exceptions are not caught\<close>



subsection \<open>C9: a run does not depend on the generator state it starts with\<close>

text \<open>
  Claim C9. The pipeline is deterministic across runs. The only input that differs between
  two runs on the same data is the state that NumPy's global generator has when the kernel
  starts. The matching notebook seeds that generator with 2019 before it draws, and both
  K-fold splits are made with \<open>random_state = 2019\<close>, so for any two initial states the two
  runs give the same fold splits, the same sampled stretch candidates and selected candidate
  (all part of the outcome of \<open>matching\<close>) and the same persisted coefficient vectors (part
  of the outcome of \<open>recalibration\<close>).
\<close>

theorem runs_are_deterministic:
  "matching E g1 = matching E g2
   \<and> KFold_split L 10 (Some RANDOM_SEED) h1 n = KFold_split L 10 (Some RANDOM_SEED) h2 n
   \<and> recalibration L h1 fs = recalibration L h2 fs"
proof -
  have k: "KFold_split L 10 (Some RANDOM_SEED) h1 n = KFold_split L 10 (Some RANDOM_SEED) h2 n" for n
    by (simp add: KFold_split_def check_random_state_def)
  have c: "cell_kfold L h1 formula df = cell_kfold L h2 formula df" for formula df
    by (simp add: cell_kfold_def k)
  have a: "run_stage_a L h1 = run_stage_a L h2" by (simp add: run_stage_a_def c)
  have b: "run_stage_b L h1 x = run_stage_b L h2 x" for x by (simp add: run_stage_b_def c)
  have "recalibration L h1 fs = recalibration L h2 fs" unfolding recalibration_def a b ..
  moreover have "matching E g1 = matching E g2" by (simp add: matching_def np_random_seed_def)
  ultimately show ?thesis using k by simp
qed

theorem runs_are_deterministic_witness:
  "matching env_ex 0 = matching env_ex 1
   \<and> KFold_split lib_nat 10 (Some RANDOM_SEED) 0 11 = KFold_split lib_nat 10 (Some RANDOM_SEED) 1 11
   \<and> recalibration lib_nat 0 (\<lambda>path. None) = recalibration lib_nat 1 (\<lambda>path. None)"
  by (rule runs_are_deterministic)

text \<open>Without the seed the split does depend on that state.\<close>

lemma unseeded_split_depends_on_global_state:
  "KFold_split lib_nat 10 None 0 11 \<noteq> KFold_split lib_nat 10 None 1 11"
  by (simp add: KFold_split_def check_random_state_def lib_nat_def fold_sizes_def upt_0_10 upt_0_11)

subsection \<open>C3: outlier removal and the 0.95 quantile\<close>

text \<open>
  Claim C3. Outlier removal never increases the dataset, and the number of removed rows is
  at most \<open>ceil(0.05 * n)\<close> of the \<open>n\<close> input rows. The notebook keeps the rows whose
  absolute error is strictly below the quantile. On eleven rows that the coefficients
  \<open>[300, 0, 0, 0]\<close> estimate at 300 and whose two largest absolute errors are both 20, the
  quantile is 20 and the cell removes both rows, although \<open>ceil(0.05 * 11) = 1\<close>.
\<close>

theorem outliers_tied_at_threshold:
  "map_sum id (\<lambda>(result_lim, q_95, n_removed, s). (q_95, n_removed))
     (bind_exn (k20_rho [300, 0, 0, 0] frame_ties) (\<lambda>k20a_rho.
        cell_outliers 0 k20a_rho store_ties))
     = Inr (Some 20, 2)
   \<and> \<lceil>0.05 * real (len frame_ties)\<rceil> = 1"
  unfolding store_ties_def frame_ties_def
  by (simp add: eval_defs Let_def cong: bind_exn_weak_cong)

text \<open>
  What does hold of the cell: the filtered frame keeps a subsequence of the rows of \<open>result\<close>,
  so it is not longer, and \<open>n_removed\<close> is the difference of the two lengths. The rows
  strictly above the quantile, which the notebook's text calls the outliers, are at most
  \<open>ceil(0.05 * n)\<close>.
\<close>

lemma subseq_mask_rows: "subseq (mask_rows m xs) xs"
proof (induction xs arbitrary: m)
  case Nil
  then show ?case by (simp add: mask_rows_def)
next
  case (Cons x xs)
  show ?case
  proof (cases m)
    case Nil
    then show ?thesis by (simp add: mask_rows_def)
  next
    case (Cons b bs)
    with Cons.IH[of bs] show ?thesis by (cases b) (auto simp add: mask_rows_def)
  qed
qed

lemma boolean_index_shrinks:
  assumes "boolean_index d m = Inr dl"
  shows "subseq (idx dl) (idx d)" and "len dl \<le> len d"
proof -
  from assms have i: "idx dl = mask_rows m (idx d)"
    by (auto simp add: boolean_index_def split: if_splits)
  show "subseq (idx dl) (idx d)" unfolding i by (rule subseq_mask_rows)
  then show "len dl \<le> len d" unfolding len_def by (rule list_emb_length)
qed

lemma setitem_idx: "setitem d c v = Inr d' \<Longrightarrow> idx d' = idx d"
  by (auto simp add: setitem_def split: if_splits)

lemma quantile_above_bound:
  assumes "quantile xs 0.95 = Some q"
  shows "int (length (filter (\<lambda>x. q < x) xs)) \<le> \<lceil>0.05 * real (length xs)\<rceil>"
proof -
  define n where "n = length xs"
  define srt where "srt = sort xs"
  define h where "h = 0.95 * real (n - 1)"
  define lo where "lo = nat \<lfloor>h\<rfloor>"
  define hi where "hi = nat \<lceil>h\<rceil>"
  from assms have ne: "xs \<noteq> []" by (auto simp add: quantile_def split: if_splits)
  then have n: "0 < n" by (simp add: n_def)
  from assms ne have q: "q = srt ! lo + (h - real lo) * (srt ! hi - srt ! lo)"
    by (simp add: quantile_def Let_def srt_def h_def lo_def hi_def n_def)
  have h0: "0 \<le> h" by (simp add: h_def)
  have hn: "h \<le> real (n - 1)" by (simp add: h_def)
  have lo_le: "real lo \<le> h" using h0 by (simp add: lo_def)
  have lo_hi: "lo \<le> hi" unfolding lo_def hi_def by (intro nat_mono) (rule floor_le_ceiling)
  have "\<lceil>h\<rceil> \<le> int (n - 1)" using hn by (simp add: ceiling_le_iff)
  then have hi_n: "hi < n" using n unfolding hi_def by linarith
  have len: "length srt = n" by (simp add: srt_def n_def)
  have sorted: "sorted srt" by (simp add: srt_def)
  have "srt ! lo \<le> srt ! hi" using sorted lo_hi hi_n len by (simp add: sorted_nth_mono)
  then have qlo: "srt ! lo \<le> q" using lo_le unfolding q by simp
  have "length (filter (\<lambda>x. q < x) xs) = length (filter (\<lambda>x. q < x) srt)"
  proof -
    have "mset (filter (\<lambda>x. q < x) xs) = mset (filter (\<lambda>x. q < x) srt)"
      by (simp add: srt_def)
    then show ?thesis by (rule mset_eq_length)
  qed
  also have "\<dots> = length (filter (\<lambda>x. q < x) (take (Suc lo) srt @ drop (Suc lo) srt))"
    by simp
  also have "\<dots> = length (filter (\<lambda>x. q < x) (drop (Suc lo) srt))"
  proof -
    have "\<forall>x\<in>set (take (Suc lo) srt). \<not> q < x"
    proof
      fix x assume "x \<in> set (take (Suc lo) srt)"
      then obtain i where i: "i < Suc lo" "i < length srt" "x = srt ! i"
        by (auto simp add: in_set_conv_nth)
      have "lo < length srt" using lo_hi hi_n len by simp
      with i sorted have "x \<le> srt ! lo" by (simp add: sorted_nth_mono)
      with qlo show "\<not> q < x" by simp
    qed
    then have "filter (\<lambda>x. q < x) (take (Suc lo) srt) = []" by (simp add: filter_empty_conv)
    then show ?thesis by (simp only: filter_append append_Nil)
  qed
  also have "\<dots> \<le> length (drop (Suc lo) srt)" by (rule length_filter_le)
  also have "\<dots> = n - Suc lo" by (simp add: len)
  finally have c: "length (filter (\<lambda>x. q < x) xs) \<le> n - Suc lo" .
  have "h < real lo + 1" unfolding lo_def using h0 by simp
  then have "real (n - Suc lo) < 0.05 * real n + 1"
    using lo_hi hi_n n unfolding h_def by (simp add: of_nat_diff algebra_simps)
  then have "real_of_int (int (n - Suc lo) - 1) < 0.05 * real n" by simp
  then have "int (n - Suc lo) - 1 < \<lceil>0.05 * real n\<rceil>" by (simp only: less_ceiling_iff)
  then have "int (n - Suc lo) \<le> \<lceil>0.05 * real n\<rceil>" by simp
  with c show ?thesis unfolding n_def by linarith
qed

lemma deref_eq_Inr: "deref s a = Inr d \<longleftrightarrow> objs s a = Some d"
  by (simp add: deref_def split: option.splits)

lemma assign_col_Inr:
  assumes "assign_col a c v s = Inr s'"
  shows "nxt s' = nxt s \<and> (\<forall>b. b \<noteq> a \<longrightarrow> objs s' b = objs s b)
         \<and> (\<exists>d d'. objs s a = Some d \<and> objs s' a = Some d' \<and> idx d' = idx d)"
  using assms unfolding assign_col_def
  by (elim bind_exn_InrE) (auto simp add: deref_eq_Inr dest: setitem_idx)

lemma boolean_index_shrinks':
  assumes "boolean_index d m = Inr dl"
  shows "subseq (idx dl) (idx d) \<and> len dl \<le> len d"
  using boolean_index_shrinks[OF assms] by simp

lemma cell_outliers_shrinks:
  assumes "result < nxt s"
    and "cell_outliers result k20a_rho s = Inr (result_lim, q_95, n_removed, s')"
  shows "\<exists>d dl. deref s result = Inr d \<and> deref s' result_lim = Inr dl
           \<and> subseq (idx dl) (idx d) \<and> len dl \<le> len d
           \<and> n_removed = int (len d) - int (len dl)"
  using assms unfolding cell_outliers_def copy_def alloc_def Let_def
  by (auto simp add: bind_exn_eq_Inr deref_eq_Inr len_def split: prod.splits
      dest!: assign_col_Inr boolean_index_shrinks')

end
